theory Spec2Isabelle
  imports Main
begin

section \<open>The HTTP binding of dsync (dsync/http.go)\<close>

text \<open>
  The file under verification is the HTTP transport of dsync: \<^verbatim>\<open>HTTPClient\<close>, whose five
  methods turn a call into an HTTP request and the response back into Go results, and
  \<^verbatim>\<open>HTTPRemoteHandler\<close>, which turns a request into one call of a \<^verbatim>\<open>Dsync\<close> and its
  result into a response.

  What http.go uses but does not define is taken as a parameter:
  \<^item> the \<^verbatim>\<open>Dsync\<close> behind the handler (dsync.go) is a record of what its five methods
    return;
  \<^item> the standard library (net/url, net/http, encoding/json) and the text of the
    sentinel error are the fields of the record \<open>deps\<close>; \<open>http_Do\<close> is the client's
    transport, \<open>http_ReadRequest\<close> is the server of net/http between the wire and the
    handler: the request as it hands it to the handler, or its own answer (400 Bad
    Request) to a request that it cannot read;
  \<^item> \<^verbatim>\<open>dag.Info\<close> and \<^verbatim>\<open>dag.Manifest\<close> are the type variables \<open>'i\<close> and \<open>'m\<close>.
\<close>

subsection \<open>Errors, statuses, readers\<close>

text \<open>
  A Go \<^verbatim>\<open>error\<close> value. \<open>ErrRemoveNotSupported\<close> is the package's sentinel;
  \<open>Errorf s\<close> is an error made by \<^verbatim>\<open>fmt.Errorf\<close> in http.go, with text \<open>s\<close>;
  \<open>Opaque s\<close> is any other error (of the library or of the Dsync), with text \<open>s\<close>.
  A nil error is \<open>None\<close> of \<open>go_error option\<close>.
\<close>

datatype go_error = ErrRemoveNotSupported | Errorf string | Opaque string

text \<open>The three statuses http.go names, and the response that carries one.\<close>

datatype ResponseStatus = StatusErrored | StatusOk | StatusRetry

record ReceiveResponse =
  Hash :: string
  Status :: ResponseStatus
  Err :: "go_error option"

text \<open>
  An \<^verbatim>\<open>io.Reader\<close>: the bytes it yields and the error, if any, that ends the stream.
  \<^verbatim>\<open>ioutil.ReadAll\<close> returns both.
\<close>

record reader =
  data :: string
  rerr :: "go_error option"

definition ioutil_ReadAll :: "reader \<Rightarrow> string \<times> go_error option" where
  "ioutil_ReadAll b = (data b, rerr b)"

definition bytes_Buffer :: "string \<Rightarrow> reader" where
  "bytes_Buffer bs = \<lparr>data = bs, rerr = None\<rparr>"

subsection \<open>URLs and query values\<close>

text \<open>
  \<^verbatim>\<open>url.Values\<close> is a \<^verbatim>\<open>map[string][]string\<close>. A query string is represented by the values
  it denotes: \<^verbatim>\<open>q.Encode()\<close> and \<^verbatim>\<open>u.Query()\<close> change between the two, so
  \<^verbatim>\<open>u.RawQuery = q.Encode()\<close> is the update of the field \<open>Query\<close>.
\<close>

type_synonym Values = "string \<rightharpoonup> string list"

type_synonym meta = "string \<rightharpoonup> string"

definition Values_Get :: "Values \<Rightarrow> string \<Rightarrow> string" where
  "Values_Get v key = (case v key of None \<Rightarrow> [] | Some [] \<Rightarrow> [] | Some (x # _) \<Rightarrow> x)"

definition Values_Set :: "Values \<Rightarrow> string \<Rightarrow> string \<Rightarrow> Values" where
  "Values_Set v key val = v(key \<mapsto> [val])"

text \<open>
  \<^verbatim>\<open>for key, val := range meta { q.Set(key, val) }\<close>: Go visits the keys of a map in an
  order of its choosing, each once. \<open>range_Set_keys\<close> is the loop along one such order;
  \<open>range_Set\<close> is its result, the same for every order (lemma \<open>range_Set_keys_eq\<close>).
\<close>

fun range_Set_keys :: "meta \<Rightarrow> string list \<Rightarrow> Values \<Rightarrow> Values" where
  "range_Set_keys m [] q = q"
| "range_Set_keys m (key # keys) q =
     range_Set_keys m keys (case m key of None \<Rightarrow> q | Some val \<Rightarrow> Values_Set q key val)"

definition range_Set :: "meta \<Rightarrow> Values \<Rightarrow> Values" where
  "range_Set m q = (\<lambda>key. case m key of None \<Rightarrow> q key | Some val \<Rightarrow> Some [val])"

text \<open>
  \<^verbatim>\<open>for key := range r.URL.Query() { if key != skip { meta[key] = r.URL.Query().Get(key) } }\<close>,
  the loop of the handler, with its result written pointwise in the same way.
\<close>

definition query_meta :: "string \<Rightarrow> Values \<Rightarrow> meta" where
  "query_meta skip q =
     (\<lambda>key. if key = skip then None
            else (case q key of None \<Rightarrow> None | Some _ \<Rightarrow> Some (Values_Get q key)))"

text \<open>A parsed URL: its query, and in \<open>Loc\<close> all the rest.\<close>

record url =
  Loc :: string
  Query :: Values

subsection \<open>Requests and responses\<close>

text \<open>
  A request as the handler has it. Beside the body as a reader it holds the form fields
  that net/http finds in what is left of the body when \<^verbatim>\<open>FormValue\<close> is first called:
  \<open>ReqPostForm\<close> for a body of type \<^verbatim>\<open>application/x-www-form-urlencoded\<close>, \<open>ReqMultipart\<close>
  for one of type \<^verbatim>\<open>multipart/form-data\<close>. Both are empty for a body of any other type,
  and for one that has been read to its end.
\<close>

record request =
  Method :: string
  ReqURL :: url
  ReqHeader :: "string \<rightharpoonup> string"
  ReqBody :: reader
  ReqPostForm :: Values
  ReqMultipart :: Values

record response =
  StatusCode :: int
  Header :: "string \<rightharpoonup> string"
  Body :: reader

text \<open>
  \<^verbatim>\<open>Header.Get\<close> and \<^verbatim>\<open>Header.Set\<close> bring the key to its canonical form on both sides, so a
  key of the model stands for all its spellings.
\<close>

definition Header_Get :: "(string \<rightharpoonup> string) \<Rightarrow> string \<Rightarrow> string" where
  "Header_Get h key = (case h key of None \<Rightarrow> [] | Some v \<Rightarrow> v)"

text \<open>
  \<^verbatim>\<open>r.Form\<close> as \<^verbatim>\<open>ParseMultipartForm\<close> of net/http fills it, whatever the method: the
  form-encoded fields of the body (which \<^verbatim>\<open>ParseForm\<close> reads for POST, PUT and PATCH only),
  then the values of the URL's query, then the fields of a multipart body.
  \<^verbatim>\<open>r.FormValue(key)\<close> is the first value of \<open>key\<close> in it. \<^verbatim>\<open>r.URL.Query()\<close> is the query alone.
\<close>

definition Values_of :: "Values \<Rightarrow> string \<Rightarrow> string list" where
  "Values_of v key = (case v key of None \<Rightarrow> [] | Some vs \<Rightarrow> vs)"

definition Request_Form :: "request \<Rightarrow> string \<Rightarrow> string list" where
  "Request_Form r key =
     (if Method r = ''POST'' \<or> Method r = ''PUT'' \<or> Method r = ''PATCH''
      then Values_of (ReqPostForm r) key else [])
     @ Values_of (Query (ReqURL r)) key
     @ Values_of (ReqMultipart r) key"

definition FormValue :: "request \<Rightarrow> string \<Rightarrow> string" where
  "FormValue r key = (case Request_Form r key of [] \<Rightarrow> [] | v # vs \<Rightarrow> v)"

subsection \<open>What http.go takes from elsewhere\<close>

record ('i, 'm) deps =
  ErrRemoveNotSupported_text :: string
  url_Parse :: "string \<Rightarrow> go_error + url"
  url_String :: "url \<Rightarrow> string"
  http_Do :: "request \<Rightarrow> go_error + response"
  http_ReadRequest :: "request \<Rightarrow> response + request"
  EncodeInfo :: "'i \<Rightarrow> go_error + string"
  DecodeInfo :: "reader \<Rightarrow> 'i \<times> go_error option"
  MarshalInfo :: "'i \<Rightarrow> go_error + string"
  EncodeManifest :: "'m \<Rightarrow> go_error + string"
  DecodeManifest :: "reader \<Rightarrow> 'm \<times> go_error option"

text \<open>
  The methods of \<^verbatim>\<open>*Dsync\<close> that the handler calls, each by what it returns (the context
  argument is left out). A pair of a value and an error that the handler reads only when
  the error is nil is a sum. What a call changes inside the Dsync is the business of
  dsync.go; the handler makes one call per request and its arguments are kept in the
  list of calls that the model of the handler returns.
\<close>

record ('i, 'm) Dsync =
  Dsync_NewReceiveSession :: "'i \<Rightarrow> bool \<Rightarrow> meta \<Rightarrow> go_error + (string \<times> 'm)"
  Dsync_ReceiveBlock :: "string \<Rightarrow> string \<Rightarrow> string \<Rightarrow> ReceiveResponse"
  Dsync_GetDagInfo :: "string \<Rightarrow> meta \<Rightarrow> go_error + 'i"
  Dsync_GetBlock :: "string \<Rightarrow> go_error + string"
  Dsync_RemoveCID :: "string \<Rightarrow> meta \<Rightarrow> go_error option"

text \<open>\<^verbatim>\<open>err.Error()\<close>.\<close>

definition Error :: "('i, 'm) deps \<Rightarrow> go_error \<Rightarrow> string" where
  "Error d e = (case e of ErrRemoveNotSupported \<Rightarrow> ErrRemoveNotSupported_text d
                        | Errorf s \<Rightarrow> s | Opaque s \<Rightarrow> s)"

subsection \<open>fmt.Sprintf\<close>

definition digit_char :: "nat \<Rightarrow> char" where
  "digit_char n = ''0123456789'' ! (n mod 10)"

fun decimal :: "nat \<Rightarrow> string" where
  "decimal n = (if n < 10 then [digit_char n] else decimal (n div 10) @ [digit_char n])"

declare decimal.simps [simp del]

text \<open>The verbs \<^verbatim>\<open>%d\<close> (of an int) and \<^verbatim>\<open>%t\<close>.\<close>

definition Sprintf_d :: "int \<Rightarrow> string" where
  "Sprintf_d i = (if i < 0 then CHR ''-'' # decimal (nat (- i)) else decimal (nat i))"

definition Sprintf_t :: "bool \<Rightarrow> string" where
  "Sprintf_t b = (if b then ''true'' else ''false'')"

subsection \<open>HTTPClient\<close>

record HTTPClient =
  URL :: string

text \<open>
  \<^verbatim>\<open>http.NewRequest(method, url, body)\<close> parses the URL with \<^verbatim>\<open>url.Parse\<close> and fails when
  that fails (the methods http.go passes are all valid ones). The client sends its
  bodies as \<^verbatim>\<open>application/json\<close> or \<^verbatim>\<open>application/octet-stream\<close>, or sends none: its
  requests have no form fields in the body.
\<close>

definition http_NewRequest ::
  "('i, 'm) deps \<Rightarrow> string \<Rightarrow> string \<Rightarrow> reader \<Rightarrow> go_error + request" where
  "http_NewRequest d method u body =
     (case url_Parse d u of
        Inl err \<Rightarrow> Inl err
      | Inr pu \<Rightarrow> Inr \<lparr>Method = method, ReqURL = pu, ReqHeader = Map.empty, ReqBody = body,
                                         ReqPostForm = Map.empty, ReqMultipart = Map.empty\<rparr>)"

definition Header_Set :: "request \<Rightarrow> string \<Rightarrow> string \<Rightarrow> request" where
  "Header_Set req key val = req\<lparr>ReqHeader := (ReqHeader req)(key \<mapsto> val)\<rparr>"

text \<open>
  The three lines every method of the client runs on a response that is not 200:
  \<^verbatim>\<open>var msg string; if data, err := ioutil.ReadAll(res.Body); err == nil { msg = string(data) }\<close>.
\<close>

definition read_msg :: "reader \<Rightarrow> string" where
  "read_msg b = (case ioutil_ReadAll b of (bs, None) \<Rightarrow> bs | (bs, Some err) \<Rightarrow> [])"

text \<open>\<^verbatim>\<open>NewReceiveSession\<close>, lines 36 to 40: the query of the request.\<close>

definition NewReceiveSession_query :: "url \<Rightarrow> bool \<Rightarrow> meta \<Rightarrow> Values" where
  "NewReceiveSession_query u pinOnComplete m =
     range_Set m (Values_Set (Query u) ''pin'' (Sprintf_t pinOnComplete))"

text \<open>Lines 27 to 47: the request, or the error that ends the call before it is sent.\<close>

definition NewReceiveSession_request ::
  "('i, 'm) deps \<Rightarrow> HTTPClient \<Rightarrow> 'i \<Rightarrow> bool \<Rightarrow> meta \<Rightarrow> go_error + request" where
  "NewReceiveSession_request d rem info pinOnComplete m =
     (case EncodeInfo d info of
        Inl err \<Rightarrow> Inl err
      | Inr buf \<Rightarrow>
          (case url_Parse d (URL rem) of
             Inl err \<Rightarrow> Inl err
           | Inr u \<Rightarrow>
               (case http_NewRequest d ''POST''
                       (url_String d (u\<lparr>Query := NewReceiveSession_query u pinOnComplete m\<rparr>))
                       (bytes_Buffer buf) of
                  Inl err \<Rightarrow> Inl err
                | Inr req \<Rightarrow> Inr (Header_Set req ''Content-Type'' ''application/json''))))"

text \<open>The results are \<^verbatim>\<open>(sid string, diff *dag.Manifest, err error)\<close>.\<close>

definition HTTPClient_NewReceiveSession ::
  "('i, 'm) deps \<Rightarrow> HTTPClient \<Rightarrow> 'i \<Rightarrow> bool \<Rightarrow> meta \<Rightarrow> string \<times> 'm option \<times> go_error option"
  where
  "HTTPClient_NewReceiveSession d rem info pinOnComplete m =
     (case NewReceiveSession_request d rem info pinOnComplete m of
        Inl err \<Rightarrow> ([], None, Some err)
      | Inr req \<Rightarrow>
          (case http_Do d req of
             Inl err \<Rightarrow> ([], None, Some err)
           | Inr res \<Rightarrow>
               if StatusCode res \<noteq> 200
               then ([], None,
                     Some (Errorf (''remote response: '' @ Sprintf_d (StatusCode res) @ '' ''
                                   @ read_msg (Body res))))
               else (case DecodeManifest d (Body res) of
                       (diff, err) \<Rightarrow> (Header_Get (Header res) ''sid'', Some diff, err))))"

text \<open>\<^verbatim>\<open>ReceiveBlock\<close>: the URL is put together by \<^verbatim>\<open>fmt.Sprintf("%s?sid=%s&hash=%s", ...)\<close>.\<close>

definition ReceiveBlock_request ::
  "('i, 'm) deps \<Rightarrow> HTTPClient \<Rightarrow> string \<Rightarrow> string \<Rightarrow> string \<Rightarrow> go_error + request" where
  "ReceiveBlock_request d rem sid hash bs =
     (case http_NewRequest d ''PUT'' (URL rem @ ''?sid='' @ sid @ ''&hash='' @ hash)
             (bytes_Buffer bs) of
        Inl err \<Rightarrow> Inl err
      | Inr req \<Rightarrow> Inr (Header_Set req ''Content-Type'' ''application/octet-stream''))"

definition HTTPClient_ReceiveBlock ::
  "('i, 'm) deps \<Rightarrow> HTTPClient \<Rightarrow> string \<Rightarrow> string \<Rightarrow> string \<Rightarrow> ReceiveResponse" where
  "HTTPClient_ReceiveBlock d rem sid hash bs =
     (case ReceiveBlock_request d rem sid hash bs of
        Inl err \<Rightarrow> \<lparr>Hash = hash, Status = StatusErrored, Err = Some err\<rparr>
      | Inr req \<Rightarrow>
          (case http_Do d req of
             Inl err \<Rightarrow> \<lparr>Hash = hash, Status = StatusErrored, Err = Some err\<rparr>
           | Inr res \<Rightarrow>
               if StatusCode res \<noteq> 200
               then \<lparr>Hash = hash, Status = StatusErrored,
                     Err = Some (Errorf (''remote error: '' @ Sprintf_d (StatusCode res) @ '' ''
                                         @ read_msg (Body res)))\<rparr>
               else \<lparr>Hash = hash, Status = StatusOk, Err = None\<rparr>))"

text \<open>\<^verbatim>\<open>GetDagInfo\<close>; the results are \<^verbatim>\<open>(info *dag.Info, err error)\<close>.\<close>

definition GetDagInfo_request ::
  "('i, 'm) deps \<Rightarrow> HTTPClient \<Rightarrow> string \<Rightarrow> meta \<Rightarrow> go_error + request" where
  "GetDagInfo_request d rem ident m =
     (case url_Parse d (URL rem) of
        Inl err \<Rightarrow> Inl err
      | Inr u \<Rightarrow>
          http_NewRequest d ''GET''
            (url_String d (u\<lparr>Query := range_Set m (Values_Set (Query u) ''manifest'' ident)\<rparr>))
            (bytes_Buffer []))"

definition HTTPClient_GetDagInfo ::
  "('i, 'm) deps \<Rightarrow> HTTPClient \<Rightarrow> string \<Rightarrow> meta \<Rightarrow> 'i option \<times> go_error option" where
  "HTTPClient_GetDagInfo d rem ident m =
     (case GetDagInfo_request d rem ident m of
        Inl err \<Rightarrow> (None, Some err)
      | Inr req \<Rightarrow>
          (case http_Do d req of
             Inl err \<Rightarrow> (None, Some err)
           | Inr res \<Rightarrow>
               if StatusCode res \<noteq> 200
               then (None, Some (Errorf (''remote error: '' @ Sprintf_d (StatusCode res) @ '' ''
                                         @ read_msg (Body res))))
               else (case DecodeInfo d (Body res) of (info, err) \<Rightarrow> (Some info, err))))"

text \<open>\<^verbatim>\<open>GetBlock\<close>; the results are \<^verbatim>\<open>(data []byte, err error)\<close>, a nil slice being \<open>[]\<close>.\<close>

definition GetBlock_request ::
  "('i, 'm) deps \<Rightarrow> HTTPClient \<Rightarrow> string \<Rightarrow> go_error + request" where
  "GetBlock_request d rem ident =
     http_NewRequest d ''GET'' (URL rem @ ''?block='' @ ident) (bytes_Buffer [])"

definition HTTPClient_GetBlock ::
  "('i, 'm) deps \<Rightarrow> HTTPClient \<Rightarrow> string \<Rightarrow> string \<times> go_error option" where
  "HTTPClient_GetBlock d rem ident =
     (case GetBlock_request d rem ident of
        Inl err \<Rightarrow> ([], Some err)
      | Inr req \<Rightarrow>
          (case http_Do d req of
             Inl err \<Rightarrow> ([], Some err)
           | Inr res \<Rightarrow>
               if StatusCode res \<noteq> 200
               then ([], Some (Errorf (''remote error: '' @ Sprintf_d (StatusCode res) @ '' ''
                                       @ read_msg (Body res))))
               else ioutil_ReadAll (Body res)))"

text \<open>\<^verbatim>\<open>RemoveCID\<close>; the result is the error, \<open>None\<close> for nil.\<close>

definition RemoveCID_request ::
  "('i, 'm) deps \<Rightarrow> HTTPClient \<Rightarrow> string \<Rightarrow> meta \<Rightarrow> go_error + request" where
  "RemoveCID_request d rem ident m =
     (case url_Parse d (URL rem) of
        Inl err \<Rightarrow> Inl err
      | Inr u \<Rightarrow>
          http_NewRequest d ''DELETE''
            (url_String d (u\<lparr>Query := range_Set m (Values_Set (Query u) ''cid'' ident)\<rparr>))
            (bytes_Buffer []))"

definition HTTPClient_RemoveCID ::
  "('i, 'm) deps \<Rightarrow> HTTPClient \<Rightarrow> string \<Rightarrow> meta \<Rightarrow> go_error option" where
  "HTTPClient_RemoveCID d rem ident m =
     (case RemoveCID_request d rem ident m of
        Inl err \<Rightarrow> Some err
      | Inr req \<Rightarrow>
          (case http_Do d req of
             Inl err \<Rightarrow> Some err
           | Inr res \<Rightarrow>
               if StatusCode res \<noteq> 200
               then (if read_msg (Body res) = Error d ErrRemoveNotSupported
                     then Some ErrRemoveNotSupported
                     else Some (Errorf (''remote: '' @ Sprintf_d (StatusCode res) @ '' ''
                                        @ read_msg (Body res))))
               else None))"

subsection \<open>HTTPRemoteHandler\<close>

text \<open>
  What one run of the handler does: the calls it makes on the Dsync, in order and with
  their arguments, and what it leaves in the \<^verbatim>\<open>http.ResponseWriter\<close>. A handler that
  returns without \<^verbatim>\<open>WriteHeader\<close> answers 200. \<open>Panicked\<close> is the run that calls
  \<^verbatim>\<open>Error()\<close> on a nil error: net/http then drops the connection and no response is sent.
\<close>

datatype 'i dsync_call =
    CallNewReceiveSession 'i bool meta
  | CallReceiveBlock string string string
  | CallGetDagInfo string meta
  | CallGetBlock string
  | CallRemoveCID string meta

datatype served = Responded response | Panicked

definition respond :: "int \<Rightarrow> (string \<rightharpoonup> string) \<Rightarrow> string \<Rightarrow> served" where
  "respond code hdr body = Responded \<lparr>StatusCode = code, Header = hdr, Body = bytes_Buffer body\<rparr>"

text \<open>
  \<^verbatim>\<open>case "POST"\<close>. The test \<^verbatim>\<open>info == nil\<close> of line 222 is on a pointer that line 214 has
  just set to a fresh \<^verbatim>\<open>&dag.Info{}\<close> and that \<^verbatim>\<open>Decode\<close> cannot change: it never holds.
  The error of \<^verbatim>\<open>json.NewEncoder(w).Encode(diff)\<close> is not looked at; when it fails nothing
  has been written.
\<close>

definition handle_POST ::
  "('i, 'm) deps \<Rightarrow> ('i, 'm) Dsync \<Rightarrow> request \<Rightarrow> 'i dsync_call list \<times> served" where
  "handle_POST d ds r =
     (case DecodeInfo d (ReqBody r) of
        (info, Some err) \<Rightarrow> ([], respond 400 Map.empty (Error d err))
      | (info, None) \<Rightarrow>
          (let pinOnComplete = (FormValue r ''pin'' = ''true'');
               m = query_meta ''pin'' (Query (ReqURL r))
           in (case Dsync_NewReceiveSession ds info pinOnComplete m of
                 Inl err \<Rightarrow>
                   ([CallNewReceiveSession info pinOnComplete m],
                    respond 400 Map.empty (Error d err))
               | Inr (sid, diff) \<Rightarrow>
                   ([CallNewReceiveSession info pinOnComplete m],
                    respond 200 [''sid'' \<mapsto> sid, ''Content-Type'' \<mapsto> ''application/json'']
                      (case EncodeManifest d diff of Inl err \<Rightarrow> [] | Inr js \<Rightarrow> js)))))"

text \<open>
  \<^verbatim>\<open>case "PUT"\<close>. \<^verbatim>\<open>ioutil.ReadAll\<close> has read the body to its end before \<^verbatim>\<open>FormValue\<close> is
  called: no form field is left in it, and \<^verbatim>\<open>sid\<close> and \<^verbatim>\<open>hash\<close> come from the query.
\<close>

definition handle_PUT ::
  "('i, 'm) deps \<Rightarrow> ('i, 'm) Dsync \<Rightarrow> request \<Rightarrow> 'i dsync_call list \<times> served" where
  "handle_PUT d ds r =
     (case ioutil_ReadAll (ReqBody r) of
        (bs, Some err) \<Rightarrow> ([], respond 400 Map.empty (Error d err))
      | (bs, None) \<Rightarrow>
          (let res = Dsync_ReceiveBlock ds (FormValue r ''sid'') (FormValue r ''hash'') bs;
               calls = [CallReceiveBlock (FormValue r ''sid'') (FormValue r ''hash'') bs]
           in if Status res = StatusErrored
              then (case Err res of
                      None \<Rightarrow> (calls, Panicked)
                    | Some err \<Rightarrow> (calls, respond 500 Map.empty (Error d err)))
              else if Status res = StatusRetry
              then (case Err res of
                      None \<Rightarrow> (calls, Panicked)
                    | Some err \<Rightarrow> (calls, respond 400 Map.empty (Error d err)))
              else (calls, respond 200 Map.empty [])))"

text \<open>\<^verbatim>\<open>case "GET"\<close>.\<close>

definition handle_GET ::
  "('i, 'm) deps \<Rightarrow> ('i, 'm) Dsync \<Rightarrow> request \<Rightarrow> 'i dsync_call list \<times> served" where
  "handle_GET d ds r =
     (let mfstID = FormValue r ''manifest'';
          blockID = FormValue r ''block''
      in if mfstID = [] \<and> blockID = []
         then ([], respond 400 Map.empty ''either manifest or block query params are required'')
         else if mfstID \<noteq> []
         then (let m = query_meta ''manifest'' (Query (ReqURL r))
               in (case Dsync_GetDagInfo ds mfstID m of
                     Inl err \<Rightarrow> ([CallGetDagInfo mfstID m], respond 500 Map.empty (Error d err))
                   | Inr mfst \<Rightarrow>
                       (case MarshalInfo d mfst of
                          Inl err \<Rightarrow>
                            ([CallGetDagInfo mfstID m], respond 500 Map.empty (Error d err))
                        | Inr js \<Rightarrow>
                            ([CallGetDagInfo mfstID m],
                             respond 200 [''Content-Type'' \<mapsto> ''application/json''] js))))
         else (case Dsync_GetBlock ds blockID of
                 Inl err \<Rightarrow> ([CallGetBlock blockID], respond 500 Map.empty (Error d err))
               | Inr bs \<Rightarrow>
                   ([CallGetBlock blockID],
                    respond 200 [''Content-Type'' \<mapsto> ''application/octet-stream''] bs)))"

text \<open>\<^verbatim>\<open>case "DELETE"\<close>.\<close>

definition handle_DELETE ::
  "('i, 'm) deps \<Rightarrow> ('i, 'm) Dsync \<Rightarrow> request \<Rightarrow> 'i dsync_call list \<times> served" where
  "handle_DELETE d ds r =
     (let cid = FormValue r ''cid'';
          m = query_meta ''cid'' (Query (ReqURL r))
      in (case Dsync_RemoveCID ds cid m of
            Some err \<Rightarrow> ([CallRemoveCID cid m], respond 500 Map.empty (Error d err))
          | None \<Rightarrow> ([CallRemoveCID cid m], respond 200 Map.empty [])))"

text \<open>The \<^verbatim>\<open>switch r.Method\<close>; it has no default case.\<close>

definition HTTPRemoteHandler ::
  "('i, 'm) deps \<Rightarrow> ('i, 'm) Dsync \<Rightarrow> request \<Rightarrow> 'i dsync_call list \<times> served" where
  "HTTPRemoteHandler d ds r =
     (if Method r = ''POST'' then handle_POST d ds r
      else if Method r = ''PUT'' then handle_PUT d ds r
      else if Method r = ''GET'' then handle_GET d ds r
      else if Method r = ''DELETE'' then handle_DELETE d ds r
      else ([], respond 200 Map.empty []))"

subsection \<open>An instance of the parameters\<close>

text \<open>
  A small instance of the library, for running the definitions on examples: URLs
  without escapes, split at \<^verbatim>\<open>?\<close>, \<^verbatim>\<open>&\<close> and \<^verbatim>\<open>=\<close> and refused when they hold a control
  character; JSON values that are their own text; a transport with no route to any host.
  It is used at inputs without escapes, where it does what the library does.
\<close>

fun split_on :: "char \<Rightarrow> string \<Rightarrow> string list" where
  "split_on c [] = [] # []"
| "split_on c (x # xs) =
     (if x = c then [] # split_on c xs
      else (case split_on c xs of [] \<Rightarrow> [x] # [] | w # ws \<Rightarrow> (x # w) # ws))"

definition parse_pair :: "string \<Rightarrow> string \<times> string" where
  "parse_pair s =
     (takeWhile (\<lambda>c. c \<noteq> CHR ''='') s, drop 1 (dropWhile (\<lambda>c. c \<noteq> CHR ''='') s))"

definition Values_Add :: "Values \<Rightarrow> string \<times> string \<Rightarrow> Values" where
  "Values_Add q kv =
     q(fst kv \<mapsto> (case q (fst kv) of None \<Rightarrow> [snd kv] | Some vs \<Rightarrow> vs @ [snd kv]))"

definition ParseQuery0 :: "string \<Rightarrow> Values" where
  "ParseQuery0 s =
     foldl Values_Add Map.empty (map parse_pair (filter (\<lambda>w. w \<noteq> []) (split_on CHR ''&'' s)))"

definition is_CTL :: "char \<Rightarrow> bool" where
  "is_CTL c = (of_char c < (32::nat) \<or> of_char c = (127::nat))"

definition url_Parse0 :: "string \<Rightarrow> go_error + url" where
  "url_Parse0 s =
     (if filter is_CTL s \<noteq> [] then Inl (Opaque ''invalid control character in URL'')
      else Inr \<lparr>Loc = takeWhile (\<lambda>c. c \<noteq> CHR ''?'') s,
                Query = ParseQuery0 (drop 1 (dropWhile (\<lambda>c. c \<noteq> CHR ''?'') s))\<rparr>)"

fun join_amp :: "string list \<Rightarrow> string" where
  "join_amp [] = []"
| "join_amp [w] = w"
| "join_amp (w # ws) = w @ CHR ''&'' # join_amp ws"

text \<open>The encoder writes the keys of a fixed list, those of the examples, in sorted order.\<close>

definition Encode0 :: "string list \<Rightarrow> Values \<Rightarrow> string" where
  "Encode0 keys q =
     join_amp (concat (map (\<lambda>k. case q k of None \<Rightarrow> []
                                   | Some vs \<Rightarrow> map (\<lambda>v. k @ CHR ''='' # v) vs) keys))"

definition url_String0 :: "url \<Rightarrow> string" where
  "url_String0 u =
     (let raw = Encode0 [''block'', ''cid'', ''manifest'', ''pin'', ''token''] (Query u)
      in if raw = [] then Loc u else Loc u @ CHR ''?'' # raw)"

text \<open>
  The server of the instance refuses a request in which a value that the client splices
  into the URL as it is (\<^verbatim>\<open>sid\<close>, \<^verbatim>\<open>hash\<close>, \<^verbatim>\<open>block\<close>) holds a space: the space ends the
  request target on the request line, and what follows is no HTTP version.
\<close>

definition http_ReadRequest0 :: "request \<Rightarrow> response + request" where
  "http_ReadRequest0 r =
     (if list_ex (\<lambda>key. list_ex (\<lambda>v. CHR '' '' \<in> set v) (Values_of (Query (ReqURL r)) key))
           [''block'', ''hash'', ''sid'']
      then Inl \<lparr>StatusCode = 400,
                Header = [''Content-Type'' \<mapsto> ''text/plain; charset=utf-8'',
                          ''Connection'' \<mapsto> ''close''],
                Body = bytes_Buffer ''400 Bad Request''\<rparr>
      else Inr r)"

definition lib0 :: "(string, string) deps" where
  "lib0 =
     \<lparr>ErrRemoveNotSupported_text = ''remove is not supported'',
      url_Parse = url_Parse0,
      url_String = url_String0,
      http_Do = (\<lambda>req. Inl (Opaque ''no route to host'')),
      http_ReadRequest = http_ReadRequest0,
      EncodeInfo = Inr,
      DecodeInfo = (\<lambda>b. (data b, rerr b)),
      MarshalInfo = Inr,
      EncodeManifest = Inr,
      DecodeManifest = (\<lambda>b. (data b, rerr b))\<rparr>"

definition remote0 :: HTTPClient where
  "remote0 = \<lparr>URL = ''http://remote/dsync''\<rparr>"

text \<open>
  A Dsync that knows one session, one DAG and one block, asks for an empty block to be
  sent again, and has no removal.
\<close>

definition ds0 :: "(string, string) Dsync" where
  "ds0 =
     \<lparr>Dsync_NewReceiveSession = (\<lambda>info pinOnComplete m. Inr (''session-1'', info)),
      Dsync_ReceiveBlock =
        (\<lambda>sid hash bs.
           if sid \<noteq> ''session-1''
           then \<lparr>Hash = hash, Status = StatusErrored, Err = Some (Opaque ''sid not found'')\<rparr>
           else if bs = []
           then \<lparr>Hash = hash, Status = StatusRetry, Err = Some (Opaque ''empty block'')\<rparr>
           else \<lparr>Hash = hash, Status = StatusOk, Err = None\<rparr>),
      Dsync_GetDagInfo =
        (\<lambda>ident m. if ident = ''root'' then Inr ''{}'' else Inl (Opaque ''not found'')),
      Dsync_GetBlock =
        (\<lambda>ident. if ident = ''blk'' then Inr ''bytes'' else Inl (Opaque ''not found'')),
      Dsync_RemoveCID = (\<lambda>ident m. Some ErrRemoveNotSupported)\<rparr>"

text \<open>
  Two more, which differ from \<open>ds0\<close> in their removal: one fails with an error of its
  own whose text is that of the sentinel, the other with an error about its pin store.
\<close>

definition ds_same_text :: "(string, string) Dsync" where
  "ds_same_text =
     ds0\<lparr>Dsync_RemoveCID := (\<lambda>ident m. Some (Opaque ''remove is not supported''))\<rparr>"

definition ds_read_only :: "(string, string) Dsync" where
  "ds_read_only =
     ds0\<lparr>Dsync_RemoveCID := (\<lambda>ident m. Some (Opaque ''pin store is read-only''))\<rparr>"

text \<open>
  The body of type \<^verbatim>\<open>multipart/form-data; boundary=x\<close> that holds one field.
\<close>

definition crlf :: string where
  "crlf = [CHR 0x0D, CHR 0x0A]"

definition multipart_field :: "string \<Rightarrow> string \<Rightarrow> string" where
  "multipart_field name val =
     ''--x'' @ crlf @ ''Content-Disposition: form-data; name='' @ [CHR 0x22] @ name @ [CHR 0x22]
     @ crlf @ crlf @ val @ crlf @ ''--x--'' @ crlf"

text \<open>One that fails \<^verbatim>\<open>GetDagInfo\<close> when the metadata holds a key \<^verbatim>\<open>block\<close>.\<close>

definition ds_strict :: "(string, string) Dsync" where
  "ds_strict =
     ds0\<lparr>Dsync_GetDagInfo :=
           (\<lambda>ident m. if m ''block'' \<noteq> None then Inl (Opaque ''unexpected parameter block'')
                      else Dsync_GetDagInfo ds0 ident m)\<rparr>"

text \<open>
  Two transports. \<open>loopback d ds\<close> is the round trip of client and handler: the library
  \<open>d\<close> with a transport that gives every request to the server, which answers a request
  it cannot read by itself, without the handler, and hands every other one, as it has
  read it, to \<open>HTTPRemoteHandler\<close> over \<open>ds\<close>; the client gets what was written (a dropped
  connection is an error of the transport). \<open>answer d res\<close> is a remote that answers
  \<open>res\<close> to every request.
\<close>

definition loopback :: "('i, 'm) deps \<Rightarrow> ('i, 'm) Dsync \<Rightarrow> ('i, 'm) deps" where
  "loopback d ds =
     d\<lparr>http_Do :=
          (\<lambda>req. case http_ReadRequest d req of
                   Inl res \<Rightarrow> Inr res
                 | Inr r \<Rightarrow>
                     (case snd (HTTPRemoteHandler d ds r) of
                        Responded res \<Rightarrow> Inr res
                      | Panicked \<Rightarrow> Inl (Opaque ''EOF'')))\<rparr>"

definition answer :: "('i, 'm) deps \<Rightarrow> response \<Rightarrow> ('i, 'm) deps" where
  "answer d res = d\<lparr>http_Do := (\<lambda>req. Inr res)\<rparr>"

subsection \<open>Reading a response\<close>

text \<open>
  The status code that reaches the peer, if any, and the codes of the class 4xx.
\<close>

definition served_code :: "served \<Rightarrow> int option" where
  "served_code s = (case s of Responded res \<Rightarrow> Some (StatusCode res) | Panicked \<Rightarrow> None)"

definition is_4xx :: "int \<Rightarrow> bool" where
  "is_4xx code = (400 \<le> code \<and> code < 500)"

section \<open>Lemmas about the definitions\<close>

subsection \<open>The range loop\<close>

lemma range_Set_keys_pointwise:
  "range_Set_keys m keys q =
     (\<lambda>key. if key \<in> set keys
            then (case m key of None \<Rightarrow> q key | Some val \<Rightarrow> Some [val])
            else q key)"
  by (induction keys arbitrary: q) (auto simp: Values_Set_def fun_eq_iff split: option.splits)

lemma range_Set_keys_eq:
  "dom m \<subseteq> set keys \<Longrightarrow> range_Set_keys m keys q = range_Set m q"
  by (auto simp: range_Set_keys_pointwise range_Set_def fun_eq_iff split: option.splits)

lemma query_has_meta:
  "m key = Some val \<Longrightarrow> Values_Get (range_Set m q) key = val"
  by (simp add: range_Set_def Values_Get_def)

lemma query_has_pin:
  "m ''pin'' = None \<Longrightarrow>
     Values_Get (NewReceiveSession_query u pinOnComplete m) ''pin'' = Sprintf_t pinOnComplete"
  by (simp add: NewReceiveSession_query_def range_Set_def Values_Set_def Values_Get_def)

subsection \<open>Status codes in decimal\<close>

lemma Sprintf_d_400: "Sprintf_d 400 = ''400''"
  by (simp add: Sprintf_d_def decimal.simps digit_char_def)

lemma Sprintf_d_500: "Sprintf_d 500 = ''500''"
  by (simp add: Sprintf_d_def decimal.simps digit_char_def)

subsection \<open>Unfolding\<close>

lemmas client_defs =
  HTTPClient_NewReceiveSession_def NewReceiveSession_request_def NewReceiveSession_query_def
  HTTPClient_ReceiveBlock_def ReceiveBlock_request_def
  HTTPClient_GetDagInfo_def GetDagInfo_request_def
  HTTPClient_GetBlock_def GetBlock_request_def
  HTTPClient_RemoveCID_def RemoveCID_request_def
  http_NewRequest_def Header_Set_def Header_Get_def read_msg_def ioutil_ReadAll_def
  bytes_Buffer_def range_Set_def Values_Set_def Values_Get_def Sprintf_t_def Error_def

lemmas handler_defs =
  HTTPRemoteHandler_def handle_POST_def handle_PUT_def handle_GET_def handle_DELETE_def
  respond_def FormValue_def Request_Form_def Values_of_def query_meta_def Let_def

lemmas instance_defs =
  lib0_def remote0_def ds0_def ds_same_text_def ds_read_only_def ds_strict_def loopback_def
  answer_def url_Parse0_def is_CTL_def url_String0_def Encode0_def ParseQuery0_def
  parse_pair_def Values_Add_def http_ReadRequest0_def

lemma read_msg_bytes_Buffer [simp]: "read_msg (bytes_Buffer bs) = bs"
  by (simp add: read_msg_def ioutil_ReadAll_def bytes_Buffer_def)

lemma Error_sentinel [simp]: "Error d ErrRemoveNotSupported = ErrRemoveNotSupported_text d"
  by (simp add: Error_def)

lemma FormValue_no_body_fields:
  "ReqPostForm r = Map.empty \<Longrightarrow> ReqMultipart r = Map.empty \<Longrightarrow>
     FormValue r key = Values_Get (Query (ReqURL r)) key"
  by (simp add: FormValue_def Request_Form_def Values_of_def Values_Get_def
      split: option.splits list.splits)

lemma served_code_respond [simp]: "served_code (respond code hdr body) = Some code"
  by (simp add: served_code_def respond_def)

subsection \<open>The loopback transport\<close>

lemma loopback_fields [simp]:
  "ErrRemoveNotSupported_text (loopback d ds) = ErrRemoveNotSupported_text d"
  "url_Parse (loopback d ds) = url_Parse d"
  "url_String (loopback d ds) = url_String d"
  "http_ReadRequest (loopback d ds) = http_ReadRequest d"
  "EncodeInfo (loopback d ds) = EncodeInfo d"
  "DecodeInfo (loopback d ds) = DecodeInfo d"
  "MarshalInfo (loopback d ds) = MarshalInfo d"
  "EncodeManifest (loopback d ds) = EncodeManifest d"
  "DecodeManifest (loopback d ds) = DecodeManifest d"
  by (simp_all add: loopback_def)

lemma Error_loopback [simp]: "Error (loopback d ds) e = Error d e"
  by (cases e) (simp_all add: Error_def)

lemma http_NewRequest_loopback [simp]:
  "http_NewRequest (loopback d ds) method u body = http_NewRequest d method u body"
  by (simp add: http_NewRequest_def)

lemma requests_loopback [simp]:
  "NewReceiveSession_request (loopback d ds) rem info p m =
     NewReceiveSession_request d rem info p m"
  "ReceiveBlock_request (loopback d ds) rem sid hash bs = ReceiveBlock_request d rem sid hash bs"
  "GetDagInfo_request (loopback d ds) rem ident m = GetDagInfo_request d rem ident m"
  "GetBlock_request (loopback d ds) rem ident = GetBlock_request d rem ident"
  "RemoveCID_request (loopback d ds) rem ident m = RemoveCID_request d rem ident m"
  by (simp_all add: NewReceiveSession_request_def ReceiveBlock_request_def GetDagInfo_request_def
      GetBlock_request_def RemoveCID_request_def cong: sum.case_cong)

text \<open>A request that the server reads as it was sent, and one that it refuses.\<close>

lemma http_Do_loopback:
  "http_ReadRequest d req = Inr req \<Longrightarrow>
     http_Do (loopback d ds) req =
       (case snd (HTTPRemoteHandler d ds req) of
          Responded res \<Rightarrow> Inr res | Panicked \<Rightarrow> Inl (Opaque ''EOF''))"
  by (simp add: loopback_def)

lemma http_Do_loopback_refused:
  "http_ReadRequest d req = Inl res \<Longrightarrow> http_Do (loopback d ds) req = Inr res"
  by (simp add: loopback_def)

subsection \<open>The requests of the client\<close>

lemma ReceiveBlock_request_shape:
  "ReceiveBlock_request d rem sid hash bs = Inr req \<Longrightarrow>
     Method req = ''PUT'' \<and> ReqBody req = bytes_Buffer bs"
  by (auto simp: ReceiveBlock_request_def http_NewRequest_def Header_Set_def split: sum.splits)

lemma RemoveCID_request_shape:
  "RemoveCID_request d rem ident m = Inr req \<Longrightarrow> Method req = ''DELETE''"
  by (auto simp: RemoveCID_request_def http_NewRequest_def split: sum.splits)

lemma GetDagInfo_request_shape:
  "GetDagInfo_request d rem ident m = Inr req \<Longrightarrow> Method req = ''GET''"
  by (auto simp: GetDagInfo_request_def http_NewRequest_def split: sum.splits)

lemma GetBlock_request_shape:
  "GetBlock_request d rem ident = Inr req \<Longrightarrow> Method req = ''GET''"
  by (auto simp: GetBlock_request_def http_NewRequest_def split: sum.splits)

subsection \<open>The responses the client reads\<close>

lemma RemoveCID_response:
  assumes "RemoveCID_request d rem ident m = Inr req"
    and "http_Do d req = Inr res"
  shows "HTTPClient_RemoveCID d rem ident m =
           (if StatusCode res \<noteq> 200
            then (if read_msg (Body res) = Error d ErrRemoveNotSupported
                  then Some ErrRemoveNotSupported
                  else Some (Errorf (''remote: '' @ Sprintf_d (StatusCode res) @ '' ''
                                     @ read_msg (Body res))))
            else None)"
  using assms by (simp add: HTTPClient_RemoveCID_def)

lemma NewReceiveSession_response:
  assumes "NewReceiveSession_request d rem info pinOnComplete m = Inr req"
    and "http_Do d req = Inr res"
  shows "HTTPClient_NewReceiveSession d rem info pinOnComplete m =
           (if StatusCode res \<noteq> 200
            then ([], None,
                  Some (Errorf (''remote response: '' @ Sprintf_d (StatusCode res) @ '' ''
                                @ read_msg (Body res))))
            else (Header_Get (Header res) ''sid'', Some (fst (DecodeManifest d (Body res))),
                  snd (DecodeManifest d (Body res))))"
  using assms by (simp add: HTTPClient_NewReceiveSession_def split: prod.splits)

subsection \<open>The branches of the handler\<close>

lemma handle_PUT_status:
  assumes "ioutil_ReadAll (ReqBody r) = (bs, None)"
    and "Dsync_ReceiveBlock ds (FormValue r ''sid'') (FormValue r ''hash'') bs = rr"
    and "Err rr = Some err"
  shows "handle_PUT d ds r =
           ([CallReceiveBlock (FormValue r ''sid'') (FormValue r ''hash'') bs],
            respond (if Status rr = StatusErrored then 500
                     else if Status rr = StatusRetry then 400 else 200) Map.empty
                    (if Status rr = StatusOk then [] else Error d err))"
  using assms by (cases "Status rr") (simp_all add: handle_PUT_def Let_def)

lemma handle_PUT_stored:
  assumes "ioutil_ReadAll (ReqBody r) = (bs, None)"
    and "Dsync_ReceiveBlock ds (FormValue r ''sid'') (FormValue r ''hash'') bs = rr"
    and "Status rr = StatusOk"
  shows "snd (handle_PUT d ds r) = respond 200 Map.empty []"
  using assms by (simp add: handle_PUT_def Let_def)

text \<open>A failure status with a nil \<open>Err\<close> makes the handler panic: nothing is answered.\<close>

lemma handle_PUT_nil_Err:
  assumes "ioutil_ReadAll (ReqBody r) = (bs, None)"
    and "Dsync_ReceiveBlock ds (FormValue r ''sid'') (FormValue r ''hash'') bs = rr"
    and "Status rr \<noteq> StatusOk" and "Err rr = None"
  shows "snd (handle_PUT d ds r) = Panicked"
  using assms by (cases "Status rr") (simp_all add: handle_PUT_def Let_def)

text \<open>A body that cannot be read is answered 400 and the Dsync is not called.\<close>

lemma handle_PUT_unreadable:
  "ioutil_ReadAll (ReqBody r) = (bs, Some err) \<Longrightarrow>
     handle_PUT d ds r = ([], respond 400 Map.empty (Error d err))"
  by (simp add: handle_PUT_def)

lemma handle_DELETE_error:
  "Dsync_RemoveCID ds (FormValue r ''cid'') (query_meta ''cid'' (Query (ReqURL r))) = Some e \<Longrightarrow>
     snd (handle_DELETE d ds r) = respond 500 Map.empty (Error d e)"
  by (simp add: handle_DELETE_def Let_def)

subsection \<open>The query of the open-session request, read back by the handler\<close>

lemma query_meta_roundtrip:
  assumes "m ''pin'' = None"
    and "dom (Query u) \<subseteq> insert ''pin'' (dom m)"
  shows "query_meta ''pin'' (NewReceiveSession_query u pinOnComplete m) = m"
proof
  fix key
  show "query_meta ''pin'' (NewReceiveSession_query u pinOnComplete m) key = m key"
  proof (cases "m key")
    case None
    then have "key \<noteq> ''pin'' \<Longrightarrow> Query u key = None"
      using assms(2) by (auto simp: dom_def subset_eq)
    with None assms(1) show ?thesis
      by (simp add: query_meta_def NewReceiveSession_query_def range_Set_def Values_Set_def)
  next
    case (Some val)
    with assms(1) have "key \<noteq> ''pin''" by auto
    with Some show ?thesis
      by (simp add: query_meta_def NewReceiveSession_query_def range_Set_def Values_Set_def
          Values_Get_def)
  qed
qed

lemma pin_flag_roundtrip:
  "m ''pin'' = None \<Longrightarrow>
     (Values_Get (NewReceiveSession_query u pinOnComplete m) ''pin'' = ''true'') = pinOnComplete"
  by (simp add: query_has_pin Sprintf_t_def)

subsection \<open>Runs of the instance\<close>

lemma put_stored:
  "HTTPClient_ReceiveBlock (loopback lib0 ds0) remote0 ''session-1'' ''h1'' ''bytes'' =
     \<lparr>Hash = ''h1'', Status = StatusOk, Err = None\<rparr>"
  by (simp add: client_defs handler_defs instance_defs)

lemma put_unknown_session:
  "HTTPClient_ReceiveBlock (loopback lib0 ds0) remote0 ''session-9'' ''h1'' ''bytes'' =
     \<lparr>Hash = ''h1'', Status = StatusErrored,
      Err = Some (Errorf ''remote error: 500 sid not found'')\<rparr>"
  by (simp add: client_defs handler_defs instance_defs Sprintf_d_500)

lemma put_bad_url:
  "HTTPClient_ReceiveBlock (loopback lib0 ds0) remote0 (''session'' @ [CHR 0x0A]) ''h1'' ''bytes'' =
     \<lparr>Hash = ''h1'', Status = StatusErrored,
      Err = Some (Opaque ''invalid control character in URL'')\<rparr>"
  by (simp add: client_defs handler_defs instance_defs)

text \<open>
  A session id with a space, spliced into the URL as it is, does not reach the handler:
  the server of the instance answers 400 itself.
\<close>

lemma put_raw_space:
  "HTTPClient_ReceiveBlock (loopback lib0 ds0) remote0 ''session 1'' ''h1'' ''bytes'' =
     \<lparr>Hash = ''h1'', Status = StatusErrored,
      Err = Some (Errorf ''remote error: 400 400 Bad Request'')\<rparr>"
  by (simp add: client_defs instance_defs Values_of_def Sprintf_d_400)

section \<open>The properties\<close>

subsection \<open>Remove\<close>

text \<open>
  C1, as a counterexample. The statement that every failing remove other than
  \<open>ErrRemoveNotSupported\<close> comes back as a generic error does not hold: the client tells
  the sentinel by the text of the body, so a Dsync that fails with another error of the
  same text is reported as the sentinel.
\<close>

theorem RemoveCID_same_text_counterexample:
  "Dsync_RemoveCID ds_same_text
       ''root'' Map.empty = Some (Opaque ''remove is not supported'')
   \<and> Opaque ''remove is not supported'' \<noteq> ErrRemoveNotSupported
   \<and> HTTPClient_RemoveCID
         (loopback lib0 ds_same_text)
         remote0 ''root'' Map.empty
       = Some ErrRemoveNotSupported
   \<and> HTTPClient_RemoveCID
         (loopback lib0 ds_same_text)
         remote0 ''root'' Map.empty
       \<noteq> Some (Errorf ''remote: 500 remove is not supported'')"
  by (simp add: client_defs handler_defs instance_defs Sprintf_d_500)

text \<open>
  C1, amended. In a round trip of the remove operation (the client's request can be
  built, the server reads it as it was sent, the handler runs on it and its response is
  what the client reads), when the Dsync fails with \<open>e\<close>: if \<open>e\<close> is
  \<open>ErrRemoveNotSupported\<close>, or any error with the sentinel's text, the client returns the
  sentinel \<open>ErrRemoveNotSupported\<close> itself; if the text of \<open>e\<close> differs from the sentinel's,
  the client returns a generic error whose text carries the status code 500 and the
  body, which is the text of \<open>e\<close>.
\<close>

theorem RemoveCID_roundtrip:
  assumes "RemoveCID_request d rem ident m = Inr req"
    and "http_ReadRequest d req = Inr req"
    and "Dsync_RemoveCID ds (FormValue req ''cid'') (query_meta ''cid'' (Query (ReqURL req)))
           = Some e"
  shows "(e = ErrRemoveNotSupported \<longrightarrow>
            HTTPClient_RemoveCID (loopback d ds) rem ident m = Some ErrRemoveNotSupported)
       \<and> (Error d e = ErrRemoveNotSupported_text d \<longrightarrow>
            HTTPClient_RemoveCID (loopback d ds) rem ident m = Some ErrRemoveNotSupported)
       \<and> (Error d e \<noteq> ErrRemoveNotSupported_text d \<longrightarrow>
            HTTPClient_RemoveCID (loopback d ds) rem ident m
              = Some (Errorf (''remote: 500 '' @ Error d e)))"
proof -
  have served: "snd (HTTPRemoteHandler d ds req) = respond 500 Map.empty (Error d e)"
    using RemoveCID_request_shape [OF assms(1)] handle_DELETE_error [OF assms(3)]
    by (simp add: HTTPRemoteHandler_def)
  have req': "RemoveCID_request (loopback d ds) rem ident m = Inr req"
    using assms(1) by simp
  have do: "http_Do (loopback d ds) req
              = Inr \<lparr>StatusCode = 500, Header = Map.empty, Body = bytes_Buffer (Error d e)\<rparr>"
    by (simp add: http_Do_loopback [OF assms(2)] served respond_def)
  show ?thesis
    by (simp add: RemoveCID_response [OF req' do] Sprintf_d_500)
qed

text \<open>
  The theorem at \<open>ds0\<close>, which has no removal, and at \<open>ds_read_only\<close>, whose removal
  fails for another reason.
\<close>

theorem RemoveCID_roundtrip_witness:
  "HTTPClient_RemoveCID (loopback lib0 ds0) remote0 ''root'' Map.empty = Some ErrRemoveNotSupported
   \<and> HTTPClient_RemoveCID
         (loopback lib0 ds_read_only)
         remote0 ''root'' Map.empty
       = Some (Errorf ''remote: 500 pin store is read-only'')"
proof -
  let ?req = "\<lparr>Method = ''DELETE'',
               ReqURL = \<lparr>Loc = ''http://remote/dsync'', Query = [''cid'' \<mapsto> [''root'']]\<rparr>,
               ReqHeader = Map.empty, ReqBody = bytes_Buffer [],
               ReqPostForm = Map.empty, ReqMultipart = Map.empty\<rparr>"
  have a: "RemoveCID_request lib0 remote0 ''root'' Map.empty = Inr ?req"
    by (simp add: client_defs instance_defs fun_eq_iff)
  have r: "http_ReadRequest lib0 ?req = Inr ?req"
    by (simp add: lib0_def http_ReadRequest0_def Values_of_def)
  have b: "Dsync_RemoveCID ds0 (FormValue ?req ''cid'') (query_meta ''cid'' (Query (ReqURL ?req)))
             = Some ErrRemoveNotSupported"
    by (simp add: ds0_def)
  have c: "Dsync_RemoveCID ds_read_only (FormValue ?req ''cid'')
             (query_meta ''cid'' (Query (ReqURL ?req))) = Some (Opaque ''pin store is read-only'')"
    by (simp add: ds_read_only_def)
  show ?thesis
    using RemoveCID_roundtrip [OF a r b] RemoveCID_roundtrip [OF a r c]
    by (simp add: Error_def lib0_def)
qed

text \<open>
  C7, as a counterexample. Whether the client returns the sentinel does depend on the
  text of the response body: two responses with the same status code and headers, whose
  bodies differ in one character, give the sentinel and a generic error.
\<close>

theorem RemoveCID_text_decides_counterexample:
  "HTTPClient_RemoveCID
      (answer lib0 \<lparr>StatusCode = 500, Header = Map.empty,
                    Body = bytes_Buffer ''remove is not supported''\<rparr>)
      remote0 ''root'' Map.empty = Some ErrRemoveNotSupported
   \<and> HTTPClient_RemoveCID
      (answer lib0 \<lparr>StatusCode = 500, Header = Map.empty,
                    Body = bytes_Buffer ''remove is not supported.''\<rparr>)
      remote0 ''root'' Map.empty = Some (Errorf ''remote: 500 remove is not supported.'')"
  by (simp add: client_defs instance_defs Sprintf_d_500)

text \<open>
  C7, amended. The remove-not-supported condition does reach the caller as the sentinel
  value, and the client recognises it by comparing text: on a response that is not 200,
  \<^verbatim>\<open>HTTPClient.RemoveCID\<close> returns \<open>ErrRemoveNotSupported\<close> exactly when the text it read
  from the body equals \<^verbatim>\<open>ErrRemoveNotSupported.Error()\<close>, whatever the status code and the
  headers are.
\<close>

theorem RemoveCID_sentinel_by_text:
  assumes "RemoveCID_request d rem ident m = Inr req"
    and "http_Do d req = Inr res"
    and "StatusCode res \<noteq> 200"
  shows "(HTTPClient_RemoveCID d rem ident m = Some ErrRemoveNotSupported)
           = (read_msg (Body res) = Error d ErrRemoveNotSupported)"
  using assms(3) by (simp add: RemoveCID_response [OF assms(1) assms(2)])

text \<open>The theorem at two answers 404: one with the sentinel's text, one with another.\<close>

theorem RemoveCID_sentinel_by_text_witness:
  "HTTPClient_RemoveCID
      (answer lib0 \<lparr>StatusCode = 404, Header = Map.empty,
                    Body = bytes_Buffer ''remove is not supported''\<rparr>)
      remote0 ''root'' Map.empty = Some ErrRemoveNotSupported
   \<and> HTTPClient_RemoveCID
      (answer lib0 \<lparr>StatusCode = 404, Header = Map.empty, Body = bytes_Buffer ''not found''\<rparr>)
      remote0 ''root'' Map.empty \<noteq> Some ErrRemoveNotSupported"
proof -
  let ?req = "\<lparr>Method = ''DELETE'',
               ReqURL = \<lparr>Loc = ''http://remote/dsync'', Query = [''cid'' \<mapsto> [''root'']]\<rparr>,
               ReqHeader = Map.empty, ReqBody = bytes_Buffer [],
               ReqPostForm = Map.empty, ReqMultipart = Map.empty\<rparr>"
  let ?r1 = "\<lparr>StatusCode = 404, Header = Map.empty,
              Body = bytes_Buffer ''remove is not supported''\<rparr>"
  let ?r2 = "\<lparr>StatusCode = 404, Header = Map.empty, Body = bytes_Buffer ''not found''\<rparr>"
  have a1: "RemoveCID_request (answer lib0 ?r1) remote0 ''root'' Map.empty = Inr ?req"
    by (simp add: client_defs instance_defs fun_eq_iff)
  have a2: "RemoveCID_request (answer lib0 ?r2) remote0 ''root'' Map.empty = Inr ?req"
    by (simp add: client_defs instance_defs fun_eq_iff)
  have b1: "http_Do (answer lib0 ?r1) ?req = Inr ?r1"
    and b2: "http_Do (answer lib0 ?r2) ?req = Inr ?r2"
    by (simp_all add: answer_def)
  have c1: "StatusCode ?r1 \<noteq> 200" and c2: "StatusCode ?r2 \<noteq> 200"
    by simp_all
  show ?thesis
    using RemoveCID_sentinel_by_text [OF a1 b1 c1] RemoveCID_sentinel_by_text [OF a2 b2 c2]
    by (simp add: answer_def lib0_def)
qed

subsection \<open>Pushing a block\<close>

text \<open>
  C2, as a counterexample. A fatal failure is not answered with a status of the class
  4xx: for a session that \<open>ds0\<close> does not know, its \<open>ReceiveBlock\<close> returns \<open>StatusErrored\<close>
  and the handler answers 500.
\<close>

theorem PUT_fatal_is_500_counterexample:
  "Status (Dsync_ReceiveBlock ds0 ''session-9'' ''h2'' ''block two'') = StatusErrored
   \<and> HTTPRemoteHandler lib0 ds0
        \<lparr>Method = ''PUT'',
         ReqURL = \<lparr>Loc = ''/dsync'', Query = [''sid'' \<mapsto> [''session-9''], ''hash'' \<mapsto> [''h2'']]\<rparr>,
         ReqHeader = Map.empty, ReqBody = bytes_Buffer ''block two'',
         ReqPostForm = Map.empty, ReqMultipart = Map.empty\<rparr>
     = ([CallReceiveBlock ''session-9'' ''h2'' ''block two''],
        respond 500 Map.empty ''sid not found'')
   \<and> \<not> is_4xx 500"
  by (simp add: handler_defs client_defs instance_defs is_4xx_def)

text \<open>
  C2, amended. For a PUT whose body can be read, and every \<open>ReceiveResponse\<close> that the
  Dsync returns for it with its \<open>Err\<close> set when its status is not \<open>StatusOk\<close>: the handler
  answers, with 200 exactly when the status is \<open>StatusOk\<close> (the block was stored), with
  500 when it is \<open>StatusErrored\<close> (fatal) and with 400 when it is \<open>StatusRetry\<close>, so that
  the two kinds of failure have different status codes.
\<close>

theorem PUT_status_codes:
  assumes "Method r = ''PUT''"
    and "ioutil_ReadAll (ReqBody r) = (bs, None)"
    and "Dsync_ReceiveBlock ds (FormValue r ''sid'') (FormValue r ''hash'') bs = rr"
    and "Status rr \<noteq> StatusOk \<longrightarrow> Err rr \<noteq> None"
  shows "\<exists>code. served_code (snd (HTTPRemoteHandler d ds r)) = Some code
           \<and> (code = 200) = (Status rr = StatusOk)
           \<and> (Status rr = StatusErrored \<longrightarrow> code = 500)
           \<and> (Status rr = StatusRetry \<longrightarrow> code = 400)"
proof (cases "Status rr = StatusOk")
  case True
  then show ?thesis
    using assms(1) handle_PUT_stored [OF assms(2) assms(3), of d]
    by (simp add: HTTPRemoteHandler_def)
next
  case False
  with assms(4) obtain err where err: "Err rr = Some err" by auto
  show ?thesis
    using assms(1) False handle_PUT_status [OF assms(2) assms(3) err, of d]
    by (cases "Status rr") (simp_all add: HTTPRemoteHandler_def)
qed

text \<open>The theorem at a block that \<open>ds0\<close> stores and at one it asks to be sent again.\<close>

theorem PUT_status_codes_witness:
  "served_code (snd (HTTPRemoteHandler lib0 ds0
          \<lparr>Method = ''PUT'',
           ReqURL = \<lparr>Loc = ''/dsync'', Query = [''sid'' \<mapsto> [''session-1''], ''hash'' \<mapsto> [''h2'']]\<rparr>,
           ReqHeader = Map.empty, ReqBody = bytes_Buffer ''block two'',
           ReqPostForm = Map.empty, ReqMultipart = Map.empty\<rparr>))
     = Some 200
   \<and> served_code (snd (HTTPRemoteHandler lib0 ds0
          \<lparr>Method = ''PUT'',
           ReqURL = \<lparr>Loc = ''/dsync'', Query = [''sid'' \<mapsto> [''session-1''], ''hash'' \<mapsto> [''h2'']]\<rparr>,
           ReqHeader = Map.empty, ReqBody = bytes_Buffer [],
           ReqPostForm = Map.empty, ReqMultipart = Map.empty\<rparr>))
     = Some 400"
proof -
  let ?u = "\<lparr>Loc = ''/dsync'', Query = [''sid'' \<mapsto> [''session-1''], ''hash'' \<mapsto> [''h2'']]\<rparr>"
  let ?r1 = "\<lparr>Method = ''PUT'', ReqURL = ?u, ReqHeader = Map.empty,
              ReqBody = bytes_Buffer ''block two'',
              ReqPostForm = Map.empty, ReqMultipart = Map.empty\<rparr>"
  let ?r2 = "\<lparr>Method = ''PUT'', ReqURL = ?u, ReqHeader = Map.empty, ReqBody = bytes_Buffer [],
                     ReqPostForm = Map.empty, ReqMultipart = Map.empty\<rparr>"
  let ?ok = "\<lparr>Hash = ''h2'', Status = StatusOk, Err = None\<rparr>"
  let ?again = "\<lparr>Hash = ''h2'', Status = StatusRetry, Err = Some (Opaque ''empty block'')\<rparr>"
  have m1: "Method ?r1 = ''PUT''" and m2: "Method ?r2 = ''PUT''" by simp_all
  have b1: "ioutil_ReadAll (ReqBody ?r1) = (''block two'', None)"
    and b2: "ioutil_ReadAll (ReqBody ?r2) = ([], None)"
    by (simp_all add: ioutil_ReadAll_def bytes_Buffer_def)
  have c1: "Dsync_ReceiveBlock ds0 (FormValue ?r1 ''sid'') (FormValue ?r1 ''hash'') ''block two''
              = ?ok"
    and c2: "Dsync_ReceiveBlock ds0 (FormValue ?r2 ''sid'') (FormValue ?r2 ''hash'') [] = ?again"
    by (simp_all add: ds0_def FormValue_def Request_Form_def Values_of_def Values_Get_def)
  have e1: "Status ?ok \<noteq> StatusOk \<longrightarrow> Err ?ok \<noteq> None"
    and e2: "Status ?again \<noteq> StatusOk \<longrightarrow> Err ?again \<noteq> None"
    by simp_all
  have "served_code (snd (HTTPRemoteHandler lib0 ds0 ?r1)) = Some 200"
    using PUT_status_codes [OF m1 b1 c1 e1, of lib0] by auto
  moreover have "served_code (snd (HTTPRemoteHandler lib0 ds0 ?r2)) = Some 400"
    using PUT_status_codes [OF m2 b2 c2 e2, of lib0] by auto
  ultimately show ?thesis by simp
qed

text \<open>
  C3. The status the client returns is to be the status the remote's
  \<^verbatim>\<open>Dsync.ReceiveBlock\<close> produced. The handler does tell \<open>StatusRetry\<close> from
  \<open>StatusErrored\<close> on the wire (400 against 500), but the client reads every status code
  other than 200 as \<open>StatusErrored\<close>: in every round trip in which the server reads the
  request as it was sent and the Dsync asks for the block to be sent again, the caller
  gets \<open>StatusErrored\<close>.
\<close>

theorem ReceiveBlock_retry_becomes_errored:
  assumes "ReceiveBlock_request d rem sid hash bs = Inr req"
    and "http_ReadRequest d req = Inr req"
    and "Dsync_ReceiveBlock ds (FormValue req ''sid'') (FormValue req ''hash'') bs = rr"
    and "Status rr = StatusRetry"
    and "Err rr = Some err"
  shows "HTTPClient_ReceiveBlock (loopback d ds) rem sid hash bs =
           \<lparr>Hash = hash, Status = StatusErrored,
            Err = Some (Errorf (''remote error: 400 '' @ Error d err))\<rparr>"
proof -
  from assms(1) have shape: "Method req = ''PUT''" "ReqBody req = bytes_Buffer bs"
    using ReceiveBlock_request_shape by blast+
  have rd: "ioutil_ReadAll (ReqBody req) = (bs, None)"
    by (simp add: shape ioutil_ReadAll_def bytes_Buffer_def)
  have "snd (HTTPRemoteHandler d ds req) = respond 400 Map.empty (Error d err)"
    using handle_PUT_status [OF rd assms(3) assms(5), of d] assms(4) shape(1)
    by (simp add: HTTPRemoteHandler_def)
  then show ?thesis
    using assms(1)
    by (simp add: HTTPClient_ReceiveBlock_def http_Do_loopback [OF assms(2)] respond_def
        Sprintf_d_400)
qed

text \<open>The same at the instance: an empty block, which \<open>ds0\<close> asks to be sent again.\<close>

theorem ReceiveBlock_retry_becomes_errored_witness:
  "Status (Dsync_ReceiveBlock ds0 ''session-1'' ''h1'' []) = StatusRetry \<and>
   HTTPClient_ReceiveBlock (loopback lib0 ds0) remote0 ''session-1'' ''h1'' [] =
     \<lparr>Hash = ''h1'', Status = StatusErrored,
      Err = Some (Errorf ''remote error: 400 empty block'')\<rparr>"
proof -
  let ?req = "\<lparr>Method = ''PUT'',
               ReqURL = \<lparr>Loc = ''http://remote/dsync'',
                         Query = [''sid'' \<mapsto> [''session-1''], ''hash'' \<mapsto> [''h1'']]\<rparr>,
               ReqHeader = [''Content-Type'' \<mapsto> ''application/octet-stream''],
               ReqBody = bytes_Buffer [],
               ReqPostForm = Map.empty, ReqMultipart = Map.empty\<rparr>"
  let ?rr = "\<lparr>Hash = ''h1'', Status = StatusRetry, Err = Some (Opaque ''empty block'')\<rparr>"
  have a: "ReceiveBlock_request lib0 remote0 ''session-1'' ''h1'' [] = Inr ?req"
    by (simp add: client_defs instance_defs)
  have r: "http_ReadRequest lib0 ?req = Inr ?req"
    by (simp add: lib0_def http_ReadRequest0_def Values_of_def)
  have b: "Dsync_ReceiveBlock ds0 (FormValue ?req ''sid'') (FormValue ?req ''hash'') [] = ?rr"
    by (simp add: ds0_def FormValue_def Request_Form_def Values_of_def Values_Get_def)
  have c: "Status ?rr = StatusRetry" and e: "Err ?rr = Some (Opaque ''empty block'')"
    by simp_all
  show ?thesis
    using ReceiveBlock_retry_becomes_errored [OF a r b c e]
    by (simp add: ds0_def Error_def)
qed

text \<open>
  C8. Every call of \<^verbatim>\<open>HTTPClient.ReceiveBlock\<close> gives one response, which names the block
  it was called for: its \<open>Hash\<close> is the hash argument, and it is either \<open>StatusOk\<close> with a
  nil \<open>Err\<close>, the remote having answered 200 to the request, or \<open>StatusErrored\<close> with an
  \<open>Err\<close> that is not nil. This holds whatever the library and the transport do.
\<close>

theorem ReceiveBlock_one_outcome:
  "Hash (HTTPClient_ReceiveBlock d rem sid hash bs) = hash \<and>
   ((Status (HTTPClient_ReceiveBlock d rem sid hash bs) = StatusOk \<and>
     Err (HTTPClient_ReceiveBlock d rem sid hash bs) = None \<and>
     (\<exists>req res. ReceiveBlock_request d rem sid hash bs = Inr req \<and>
                http_Do d req = Inr res \<and> StatusCode res = 200))
    \<or>
    (Status (HTTPClient_ReceiveBlock d rem sid hash bs) = StatusErrored \<and>
     (\<exists>err. Err (HTTPClient_ReceiveBlock d rem sid hash bs) = Some err)))"
  by (simp add: HTTPClient_ReceiveBlock_def split: sum.splits)

text \<open>
  The theorem at a block that is stored, at a session the remote does not know and at a
  session id that makes the URL unparsable.
\<close>

theorem ReceiveBlock_one_outcome_witness:
  "Hash (HTTPClient_ReceiveBlock (loopback lib0 ds0) remote0 ''session-1'' ''h1'' ''bytes'') = ''h1''
   \<and> Status (HTTPClient_ReceiveBlock (loopback lib0 ds0) remote0 ''session-1'' ''h1'' ''bytes'')
       = StatusOk
   \<and> Hash (HTTPClient_ReceiveBlock (loopback lib0 ds0) remote0 ''session-9'' ''h1'' ''bytes'') = ''h1''
   \<and> Status (HTTPClient_ReceiveBlock (loopback lib0 ds0) remote0 ''session-9'' ''h1'' ''bytes'')
       = StatusErrored
   \<and> Hash (HTTPClient_ReceiveBlock (loopback lib0 ds0) remote0 (''session'' @ [CHR 0x0A]) ''h1''
             ''bytes'') = ''h1''
   \<and> Status (HTTPClient_ReceiveBlock (loopback lib0 ds0) remote0 (''session'' @ [CHR 0x0A]) ''h1''
               ''bytes'') = StatusErrored"
proof -
  have h1: "Hash (HTTPClient_ReceiveBlock (loopback lib0 ds0) remote0 ''session-1'' ''h1'' ''bytes'')
              = ''h1''"
    using ReceiveBlock_one_outcome [of "loopback lib0 ds0" remote0 "''session-1''" "''h1''" "''bytes''"]
    by (rule conjunct1)
  have h2: "Hash (HTTPClient_ReceiveBlock (loopback lib0 ds0) remote0 ''session-9'' ''h1'' ''bytes'')
              = ''h1''"
    using ReceiveBlock_one_outcome [of "loopback lib0 ds0" remote0 "''session-9''" "''h1''" "''bytes''"]
    by (rule conjunct1)
  have h3: "Hash (HTTPClient_ReceiveBlock (loopback lib0 ds0) remote0 (''session'' @ [CHR 0x0A])
                    ''h1'' ''bytes'') = ''h1''"
    using ReceiveBlock_one_outcome [of "loopback lib0 ds0" remote0 "''session'' @ [CHR 0x0A]" "''h1''"
        "''bytes''"]
    by (rule conjunct1)
  have s1: "Status (HTTPClient_ReceiveBlock (loopback lib0 ds0) remote0 ''session-1'' ''h1'' ''bytes'')
              = StatusOk"
    by (simp add: put_stored)
  have s2: "Status (HTTPClient_ReceiveBlock (loopback lib0 ds0) remote0 ''session-9'' ''h1'' ''bytes'')
              = StatusErrored"
    by (simp add: put_unknown_session)
  have s3: "Status (HTTPClient_ReceiveBlock (loopback lib0 ds0) remote0 (''session'' @ [CHR 0x0A])
                      ''h1'' ''bytes'') = StatusErrored"
    unfolding put_bad_url by simp
  show ?thesis
    using h1 h2 h3 s1 s2 s3 by blast
qed

text \<open>
  The whole of what the round trip does to the status: \<open>StatusOk\<close> and \<open>StatusErrored\<close>
  arrive as they are, \<open>StatusRetry\<close> arrives as \<open>StatusErrored\<close>. A request that the server
  refuses is answered 400 by the server and comes back as \<open>StatusErrored\<close> too.
\<close>

lemma ReceiveBlock_roundtrip_status:
  assumes "ReceiveBlock_request d rem sid hash bs = Inr req"
    and "http_ReadRequest d req = Inr req"
    and "Dsync_ReceiveBlock ds (FormValue req ''sid'') (FormValue req ''hash'') bs = rr"
    and "Status rr \<noteq> StatusOk \<longrightarrow> Err rr \<noteq> None"
  shows "Status (HTTPClient_ReceiveBlock (loopback d ds) rem sid hash bs)
           = (if Status rr = StatusOk then StatusOk else StatusErrored)"
proof -
  from assms(1) have shape: "Method req = ''PUT''" "ReqBody req = bytes_Buffer bs"
    using ReceiveBlock_request_shape by blast+
  have rd: "ioutil_ReadAll (ReqBody req) = (bs, None)"
    by (simp add: shape ioutil_ReadAll_def bytes_Buffer_def)
  show ?thesis
  proof (cases "Status rr = StatusOk")
    case True
    then have "snd (HTTPRemoteHandler d ds req) = respond 200 Map.empty []"
      using handle_PUT_stored [OF rd assms(3), of d] shape(1)
      by (simp add: HTTPRemoteHandler_def)
    with True show ?thesis
      using assms(1)
      by (simp add: HTTPClient_ReceiveBlock_def http_Do_loopback [OF assms(2)] respond_def)
  next
    case False
    with assms(4) obtain err where err: "Err rr = Some err" by auto
    have "served_code (snd (HTTPRemoteHandler d ds req)) \<noteq> Some 200"
      using handle_PUT_status [OF rd assms(3) err, of d] False shape(1)
      by (cases "Status rr") (simp_all add: HTTPRemoteHandler_def)
    with False show ?thesis
      using assms(1)
      by (auto simp: HTTPClient_ReceiveBlock_def http_Do_loopback [OF assms(2)] served_code_def
          split: served.splits)
  qed
qed

subsection \<open>Fetching DAG info and blocks\<close>

text \<open>
  C4, as a counterexample. For an identifier that \<open>ds0\<close> does not know, the caller of
  \<^verbatim>\<open>GetDagInfo\<close> and of \<^verbatim>\<open>GetBlock\<close> does not receive a not-found value of its own: it receives
  a generic error made by \<^verbatim>\<open>fmt.Errorf\<close>, in which the condition is only part of the text.
\<close>

theorem Get_unknown_counterexample:
  "Dsync_GetDagInfo ds0 ''nope'' Map.empty = Inl (Opaque ''not found'')
   \<and> Dsync_GetBlock ds0 ''nope'' = Inl (Opaque ''not found'')
   \<and> HTTPClient_GetDagInfo (loopback lib0 ds0) remote0 ''nope'' Map.empty
       = (None, Some (Errorf ''remote error: 500 not found''))
   \<and> HTTPClient_GetBlock (loopback lib0 ds0) remote0 ''nope''
       = ([], Some (Errorf ''remote error: 500 not found''))"
  by (simp add: client_defs handler_defs instance_defs Sprintf_d_500)

text \<open>
  C4, amended. \<^verbatim>\<open>GetDagInfo\<close> and \<^verbatim>\<open>GetBlock\<close> give the caller every answer other than 200
  as a generic error made by \<^verbatim>\<open>fmt.Errorf\<close>, whose text is \<^verbatim>\<open>remote error:\<close>, the status
  code and the body as read; there is no not-found value. In particular, in a round
  trip in which the server reads the request as it was sent, the handler finds the
  parameter (a \<^verbatim>\<open>manifest\<close> that is not empty; for a block, an empty \<^verbatim>\<open>manifest\<close> and a
  \<^verbatim>\<open>block\<close> that is not empty) and the Dsync fails on the identifier, because it is
  unknown or for any other reason, the caller receives the generic error with the
  status code 500 and the text of the Dsync's error. The two operations are
  independent of each other.
\<close>

theorem Get_failure_is_generic_error:
  "(\<forall>req res. GetDagInfo_request d rem ident m = Inr req \<and> http_Do d req = Inr res
        \<and> StatusCode res \<noteq> 200 \<longrightarrow>
      HTTPClient_GetDagInfo d rem ident m
        = (None, Some (Errorf (''remote error: '' @ Sprintf_d (StatusCode res) @ '' ''
                               @ read_msg (Body res)))))
   \<and> (\<forall>req res. GetBlock_request d rem ident = Inr req \<and> http_Do d req = Inr res
        \<and> StatusCode res \<noteq> 200 \<longrightarrow>
      HTTPClient_GetBlock d rem ident
        = ([], Some (Errorf (''remote error: '' @ Sprintf_d (StatusCode res) @ '' ''
                             @ read_msg (Body res)))))
   \<and> (\<forall>req e. GetDagInfo_request d rem ident m = Inr req \<and> http_ReadRequest d req = Inr req
        \<and> FormValue req ''manifest'' \<noteq> []
        \<and> Dsync_GetDagInfo ds (FormValue req ''manifest'')
             (query_meta ''manifest'' (Query (ReqURL req))) = Inl e \<longrightarrow>
      HTTPClient_GetDagInfo (loopback d ds) rem ident m
        = (None, Some (Errorf (''remote error: 500 '' @ Error d e))))
   \<and> (\<forall>req e. GetBlock_request d rem ident = Inr req \<and> http_ReadRequest d req = Inr req
        \<and> FormValue req ''manifest'' = [] \<and> FormValue req ''block'' \<noteq> []
        \<and> Dsync_GetBlock ds (FormValue req ''block'') = Inl e \<longrightarrow>
      HTTPClient_GetBlock (loopback d ds) rem ident
        = ([], Some (Errorf (''remote error: 500 '' @ Error d e))))"
proof (intro conjI allI impI)
  fix req res
  assume "GetDagInfo_request d rem ident m = Inr req \<and> http_Do d req = Inr res
            \<and> StatusCode res \<noteq> 200"
  then show "HTTPClient_GetDagInfo d rem ident m
        = (None, Some (Errorf (''remote error: '' @ Sprintf_d (StatusCode res) @ '' ''
                               @ read_msg (Body res))))"
    by (simp add: HTTPClient_GetDagInfo_def)
next
  fix req res
  assume "GetBlock_request d rem ident = Inr req \<and> http_Do d req = Inr res
            \<and> StatusCode res \<noteq> 200"
  then show "HTTPClient_GetBlock d rem ident
        = ([], Some (Errorf (''remote error: '' @ Sprintf_d (StatusCode res) @ '' ''
                             @ read_msg (Body res))))"
    by (simp add: HTTPClient_GetBlock_def)
next
  fix req e
  assume h: "GetDagInfo_request d rem ident m = Inr req \<and> http_ReadRequest d req = Inr req
        \<and> FormValue req ''manifest'' \<noteq> []
        \<and> Dsync_GetDagInfo ds (FormValue req ''manifest'')
             (query_meta ''manifest'' (Query (ReqURL req))) = Inl e"
  then have built: "GetDagInfo_request d rem ident m = Inr req"
    and sent: "http_ReadRequest d req = Inr req"
    by simp_all
  have "snd (HTTPRemoteHandler d ds req) = respond 500 Map.empty (Error d e)"
    using GetDagInfo_request_shape [OF built] h
    by (simp add: HTTPRemoteHandler_def handle_GET_def Let_def)
  then show "HTTPClient_GetDagInfo (loopback d ds) rem ident m
        = (None, Some (Errorf (''remote error: 500 '' @ Error d e)))"
    using built
    by (simp add: HTTPClient_GetDagInfo_def http_Do_loopback [OF sent] respond_def Sprintf_d_500)
next
  fix req e
  assume h: "GetBlock_request d rem ident = Inr req \<and> http_ReadRequest d req = Inr req
        \<and> FormValue req ''manifest'' = [] \<and> FormValue req ''block'' \<noteq> []
        \<and> Dsync_GetBlock ds (FormValue req ''block'') = Inl e"
  then have built: "GetBlock_request d rem ident = Inr req"
    and sent: "http_ReadRequest d req = Inr req"
    by simp_all
  have "snd (HTTPRemoteHandler d ds req) = respond 500 Map.empty (Error d e)"
    using GetBlock_request_shape [OF built] h
    by (simp add: HTTPRemoteHandler_def handle_GET_def Let_def)
  then show "HTTPClient_GetBlock (loopback d ds) rem ident
        = ([], Some (Errorf (''remote error: 500 '' @ Error d e)))"
    using built
    by (simp add: HTTPClient_GetBlock_def http_Do_loopback [OF sent] respond_def Sprintf_d_500)
qed

text \<open>
  The theorem at \<open>ds0\<close>: an identifier it holds neither a DAG nor a block for, and the
  empty identifier, for which the handler answers 400 and calls nothing.
\<close>

theorem Get_failure_is_generic_error_witness:
  "HTTPClient_GetDagInfo (loopback lib0 ds0) remote0 ''missing'' Map.empty
     = (None, Some (Errorf ''remote error: 500 not found''))
   \<and> HTTPClient_GetBlock (loopback lib0 ds0) remote0 ''missing''
     = ([], Some (Errorf ''remote error: 500 not found''))
   \<and> HTTPClient_GetBlock (loopback lib0 ds0) remote0 []
     = ([], Some (Errorf ''remote error: 400 either manifest or block query params are required''))"
proof -
  let ?req = "\<lparr>Method = ''GET'',
               ReqURL = \<lparr>Loc = ''http://remote/dsync'', Query = [''manifest'' \<mapsto> [''missing'']]\<rparr>,
               ReqHeader = Map.empty, ReqBody = bytes_Buffer [],
               ReqPostForm = Map.empty, ReqMultipart = Map.empty\<rparr>"
  let ?req' = "\<lparr>Method = ''GET'',
               ReqURL = \<lparr>Loc = ''http://remote/dsync'', Query = [''block'' \<mapsto> [''missing'']]\<rparr>,
               ReqHeader = Map.empty, ReqBody = bytes_Buffer [],
               ReqPostForm = Map.empty, ReqMultipart = Map.empty\<rparr>"
  let ?empty_req = "\<lparr>Method = ''GET'',
               ReqURL = \<lparr>Loc = ''http://remote/dsync'', Query = [''block'' \<mapsto> [Nil]]\<rparr>,
               ReqHeader = Map.empty, ReqBody = bytes_Buffer [],
               ReqPostForm = Map.empty, ReqMultipart = Map.empty\<rparr>"
  let ?refused = "\<lparr>StatusCode = 400, Header = Map.empty,
                Body = bytes_Buffer ''either manifest or block query params are required''\<rparr>"
  note t = Get_failure_is_generic_error [of lib0 remote0 "''missing''" Map.empty ds0]
  note t0 = Get_failure_is_generic_error [of "loopback lib0 ds0" remote0 "[]" Map.empty ds0]
  have a: "GetDagInfo_request lib0 remote0 ''missing'' Map.empty = Inr ?req"
    by (simp add: client_defs instance_defs fun_eq_iff)
  have r: "http_ReadRequest lib0 ?req = Inr ?req"
    by (simp add: lib0_def http_ReadRequest0_def Values_of_def)
  have b: "FormValue ?req ''manifest'' \<noteq> []"
    by (simp add: FormValue_def Request_Form_def Values_of_def)
  have c: "Dsync_GetDagInfo ds0 (FormValue ?req ''manifest'')
             (query_meta ''manifest'' (Query (ReqURL ?req))) = Inl (Opaque ''not found'')"
    by (simp add: ds0_def FormValue_def Request_Form_def Values_of_def)
  have a': "GetBlock_request lib0 remote0 ''missing'' = Inr ?req'"
    by (simp add: client_defs instance_defs fun_eq_iff)
  have r': "http_ReadRequest lib0 ?req' = Inr ?req'"
    by (simp add: lib0_def http_ReadRequest0_def Values_of_def)
  have b': "FormValue ?req' ''manifest'' = []" and b'': "FormValue ?req' ''block'' \<noteq> []"
    by (simp_all add: FormValue_def Request_Form_def Values_of_def)
  have c': "Dsync_GetBlock ds0 (FormValue ?req' ''block'') = Inl (Opaque ''not found'')"
    by (simp add: ds0_def FormValue_def Request_Form_def Values_of_def)
  have a0: "GetBlock_request (loopback lib0 ds0) remote0 [] = Inr ?empty_req"
    by (simp add: client_defs instance_defs fun_eq_iff)
  have d0: "http_Do (loopback lib0 ds0) ?empty_req = Inr ?refused"
    by (simp add: loopback_def lib0_def http_ReadRequest0_def handler_defs bytes_Buffer_def)
  have s0: "StatusCode ?refused \<noteq> 200"
    by simp
  from t a r b c
  have "HTTPClient_GetDagInfo (loopback lib0 ds0) remote0 ''missing'' Map.empty
          = (None, Some (Errorf (''remote error: 500 '' @ Error lib0 (Opaque ''not found''))))"
    by blast
  moreover from t a' r' b' b'' c'
  have "HTTPClient_GetBlock (loopback lib0 ds0) remote0 ''missing''
          = ([], Some (Errorf (''remote error: 500 '' @ Error lib0 (Opaque ''not found''))))"
    by blast
  moreover from t0 a0 d0 s0
  have "HTTPClient_GetBlock (loopback lib0 ds0) remote0 []
          = ([], Some (Errorf (''remote error: '' @ Sprintf_d (StatusCode ?refused) @ '' ''
                               @ read_msg (Body ?refused))))"
    by blast
  ultimately show ?thesis
    by (simp add: Error_def Sprintf_d_400)
qed

text \<open>
  An identifier with a space, spliced into the URL as it is, does not reach the handler:
  the server of the instance answers 400 itself, and the caller gets the same kind of
  error.
\<close>

lemma get_block_raw_space:
  "HTTPClient_GetBlock (loopback lib0 ds0) remote0 ''a b''
     = ([], Some (Errorf ''remote error: 400 400 Bad Request''))"
  by (simp add: client_defs instance_defs Values_of_def Sprintf_d_400)

text \<open>
  C10, as a counterexample, in two parts. First, the handler reads \<^verbatim>\<open>manifest\<close> and
  \<^verbatim>\<open>block\<close> with \<^verbatim>\<open>r.FormValue\<close>, which looks beyond the query: a GET whose query has
  neither, and whose multipart body has a field \<^verbatim>\<open>manifest\<close>, is not answered 400 but
  makes the call \<^verbatim>\<open>GetDagInfo\<close>. Second, a \<^verbatim>\<open>block\<close> parameter beside \<^verbatim>\<open>manifest\<close> is not
  ignored: it goes to \<^verbatim>\<open>GetDagInfo\<close> inside the metadata, and with \<open>ds_strict\<close> the same
  request is answered 200 without it and 500 with it.
\<close>

theorem GET_parameters_counterexample:
  "Values_Get (Map.empty :: Values) ''manifest'' = []
   \<and> Values_Get (Map.empty :: Values) ''block'' = []
   \<and> HTTPRemoteHandler lib0 ds0
        \<lparr>Method = ''GET'', ReqURL = \<lparr>Loc = ''/dsync'', Query = Map.empty\<rparr>,
         ReqHeader = [''Content-Type'' \<mapsto> ''multipart/form-data; boundary=x''],
         ReqBody = bytes_Buffer (multipart_field ''manifest'' ''root''),
         ReqPostForm = Map.empty, ReqMultipart = [''manifest'' \<mapsto> [''root'']]\<rparr>
     = ([CallGetDagInfo ''root'' Map.empty],
        respond 200 [''Content-Type'' \<mapsto> ''application/json''] ''{}'')
   \<and> snd (HTTPRemoteHandler lib0 ds_strict
        \<lparr>Method = ''GET'',
         ReqURL = \<lparr>Loc = ''/dsync'', Query = [''manifest'' \<mapsto> [''root'']]\<rparr>,
         ReqHeader = Map.empty, ReqBody = bytes_Buffer [],
         ReqPostForm = Map.empty, ReqMultipart = Map.empty\<rparr>)
     = respond 200 [''Content-Type'' \<mapsto> ''application/json''] ''{}''
   \<and> snd (HTTPRemoteHandler lib0 ds_strict
        \<lparr>Method = ''GET'',
         ReqURL = \<lparr>Loc = ''/dsync'',
                   Query = [''manifest'' \<mapsto> [''root''], ''block'' \<mapsto> [''blk'']]\<rparr>,
         ReqHeader = Map.empty, ReqBody = bytes_Buffer [],
         ReqPostForm = Map.empty, ReqMultipart = Map.empty\<rparr>)
     = respond 500 Map.empty ''unexpected parameter block''"
  by (simp add: handler_defs client_defs instance_defs fun_eq_iff)

text \<open>
  C10, amended. For every GET request, with \<^verbatim>\<open>manifest\<close> and \<^verbatim>\<open>block\<close> read as
  \<^verbatim>\<open>r.FormValue\<close> reads them (the first value in the URL's query and, after it, in the
  fields of a multipart body): when both are empty the handler answers 400 and makes no
  call on the Dsync; when \<^verbatim>\<open>manifest\<close> is not empty it makes the one call \<^verbatim>\<open>GetDagInfo\<close> and
  answers from its result, never with a block (manifest takes precedence), and hands
  every key of the URL's query other than \<^verbatim>\<open>manifest\<close>, a \<^verbatim>\<open>block\<close> among them, to
  \<^verbatim>\<open>GetDagInfo\<close> as metadata; and it calls \<^verbatim>\<open>GetBlock\<close>, and answers with the bytes of the
  block, only when \<^verbatim>\<open>manifest\<close> is empty and \<^verbatim>\<open>block\<close> is not.
\<close>

theorem GET_dispatch:
  assumes "Method r = ''GET''"
  shows "(FormValue r ''manifest'' = [] \<and> FormValue r ''block'' = [] \<longrightarrow>
            HTTPRemoteHandler d ds r =
              ([], respond 400 Map.empty ''either manifest or block query params are required'')
            \<and> served_code (snd (HTTPRemoteHandler d ds r)) = Some 400)
       \<and> (FormValue r ''manifest'' \<noteq> [] \<longrightarrow>
            HTTPRemoteHandler d ds r =
              ([CallGetDagInfo (FormValue r ''manifest'') (query_meta ''manifest'' (Query (ReqURL r)))],
               (case Dsync_GetDagInfo ds (FormValue r ''manifest'')
                       (query_meta ''manifest'' (Query (ReqURL r))) of
                  Inl err \<Rightarrow> respond 500 Map.empty (Error d err)
                | Inr mfst \<Rightarrow>
                    (case MarshalInfo d mfst of
                       Inl err \<Rightarrow> respond 500 Map.empty (Error d err)
                     | Inr js \<Rightarrow> respond 200 [''Content-Type'' \<mapsto> ''application/json''] js))))
       \<and> (\<forall>v vs. Query (ReqURL r) ''block'' = Some (v # vs) \<longrightarrow>
            query_meta ''manifest'' (Query (ReqURL r)) ''block'' = Some v)
       \<and> (FormValue r ''manifest'' = [] \<and> FormValue r ''block'' \<noteq> [] \<longrightarrow>
            HTTPRemoteHandler d ds r =
              ([CallGetBlock (FormValue r ''block'')],
               (case Dsync_GetBlock ds (FormValue r ''block'') of
                  Inl err \<Rightarrow> respond 500 Map.empty (Error d err)
                | Inr bs \<Rightarrow> respond 200 [''Content-Type'' \<mapsto> ''application/octet-stream''] bs)))
       \<and> ((\<exists>b. CallGetBlock b \<in> set (fst (HTTPRemoteHandler d ds r)))
            = (FormValue r ''manifest'' = [] \<and> FormValue r ''block'' \<noteq> []))"
  using assms
  by (auto simp: HTTPRemoteHandler_def handle_GET_def Let_def query_meta_def Values_Get_def
      split: sum.splits)

text \<open>
  The theorem at four requests to \<open>ds0\<close>: no parameter; both parameters in the query;
  \<^verbatim>\<open>block\<close> alone; \<^verbatim>\<open>block\<close> as a field of a multipart body.
\<close>

theorem GET_dispatch_witness:
  "HTTPRemoteHandler lib0 ds0
      \<lparr>Method = ''GET'', ReqURL = \<lparr>Loc = ''/dsync'', Query = Map.empty\<rparr>,
       ReqHeader = Map.empty, ReqBody = bytes_Buffer [],
       ReqPostForm = Map.empty, ReqMultipart = Map.empty\<rparr>
     = ([], respond 400 Map.empty ''either manifest or block query params are required'')
   \<and> HTTPRemoteHandler lib0 ds0
      \<lparr>Method = ''GET'',
       ReqURL = \<lparr>Loc = ''/dsync'', Query = [''manifest'' \<mapsto> [''root''], ''block'' \<mapsto> [''blk'']]\<rparr>,
       ReqHeader = Map.empty, ReqBody = bytes_Buffer [],
       ReqPostForm = Map.empty, ReqMultipart = Map.empty\<rparr>
     = ([CallGetDagInfo ''root'' [''block'' \<mapsto> ''blk'']],
        respond 200 [''Content-Type'' \<mapsto> ''application/json''] ''{}'')
   \<and> HTTPRemoteHandler lib0 ds0
      \<lparr>Method = ''GET'', ReqURL = \<lparr>Loc = ''/dsync'', Query = [''block'' \<mapsto> [''blk'']]\<rparr>,
       ReqHeader = Map.empty, ReqBody = bytes_Buffer [],
       ReqPostForm = Map.empty, ReqMultipart = Map.empty\<rparr>
     = ([CallGetBlock ''blk''],
        respond 200 [''Content-Type'' \<mapsto> ''application/octet-stream''] ''bytes'')
   \<and> HTTPRemoteHandler lib0 ds0
      \<lparr>Method = ''GET'', ReqURL = \<lparr>Loc = ''/dsync'', Query = Map.empty\<rparr>,
       ReqHeader = [''Content-Type'' \<mapsto> ''multipart/form-data; boundary=x''],
       ReqBody = bytes_Buffer (multipart_field ''block'' ''blk''),
       ReqPostForm = Map.empty, ReqMultipart = [''block'' \<mapsto> [''blk'']]\<rparr>
     = ([CallGetBlock ''blk''],
        respond 200 [''Content-Type'' \<mapsto> ''application/octet-stream''] ''bytes'')"
proof -
  let ?r0 = "\<lparr>Method = ''GET'', ReqURL = \<lparr>Loc = ''/dsync'', Query = Map.empty\<rparr>,
              ReqHeader = Map.empty, ReqBody = bytes_Buffer [],
              ReqPostForm = Map.empty, ReqMultipart = Map.empty\<rparr>"
  let ?r1 = "\<lparr>Method = ''GET'',
              ReqURL = \<lparr>Loc = ''/dsync'',
                        Query = [''manifest'' \<mapsto> [''root''], ''block'' \<mapsto> [''blk'']]\<rparr>,
              ReqHeader = Map.empty, ReqBody = bytes_Buffer [],
              ReqPostForm = Map.empty, ReqMultipart = Map.empty\<rparr>"
  let ?r2 = "\<lparr>Method = ''GET'', ReqURL = \<lparr>Loc = ''/dsync'', Query = [''block'' \<mapsto> [''blk'']]\<rparr>,
              ReqHeader = Map.empty, ReqBody = bytes_Buffer [],
              ReqPostForm = Map.empty, ReqMultipart = Map.empty\<rparr>"
  let ?r3 = "\<lparr>Method = ''GET'', ReqURL = \<lparr>Loc = ''/dsync'', Query = Map.empty\<rparr>,
              ReqHeader = [''Content-Type'' \<mapsto> ''multipart/form-data; boundary=x''],
              ReqBody = bytes_Buffer (multipart_field ''block'' ''blk''),
              ReqPostForm = Map.empty, ReqMultipart = [''block'' \<mapsto> [''blk'']]\<rparr>"
  have m0: "Method ?r0 = ''GET''" and m1: "Method ?r1 = ''GET''" and m2: "Method ?r2 = ''GET''"
    and m3: "Method ?r3 = ''GET''"
    by simp_all
  have f0: "FormValue ?r0 ''manifest'' = [] \<and> FormValue ?r0 ''block'' = []"
    by (simp add: FormValue_def Request_Form_def Values_of_def)
  have f1: "FormValue ?r1 ''manifest'' \<noteq> []"
    by (simp add: FormValue_def Request_Form_def Values_of_def)
  have f2: "FormValue ?r2 ''manifest'' = [] \<and> FormValue ?r2 ''block'' \<noteq> []"
    by (simp add: FormValue_def Request_Form_def Values_of_def)
  have f3: "FormValue ?r3 ''manifest'' = [] \<and> FormValue ?r3 ''block'' \<noteq> []"
    by (simp add: FormValue_def Request_Form_def Values_of_def)
  have g0: "HTTPRemoteHandler lib0 ds0 ?r0 =
              ([], respond 400 Map.empty ''either manifest or block query params are required'')"
    using GET_dispatch [OF m0, of lib0 ds0] f0 by blast
  have g1: "HTTPRemoteHandler lib0 ds0 ?r1 =
              ([CallGetDagInfo (FormValue ?r1 ''manifest'')
                  (query_meta ''manifest'' (Query (ReqURL ?r1)))],
               (case Dsync_GetDagInfo ds0 (FormValue ?r1 ''manifest'')
                       (query_meta ''manifest'' (Query (ReqURL ?r1))) of
                  Inl err \<Rightarrow> respond 500 Map.empty (Error lib0 err)
                | Inr mfst \<Rightarrow>
                    (case MarshalInfo lib0 mfst of
                       Inl err \<Rightarrow> respond 500 Map.empty (Error lib0 err)
                     | Inr js \<Rightarrow> respond 200 [''Content-Type'' \<mapsto> ''application/json''] js)))"
    using GET_dispatch [OF m1, of lib0 ds0] f1 by blast
  have g2: "HTTPRemoteHandler lib0 ds0 ?r2 =
              ([CallGetBlock (FormValue ?r2 ''block'')],
               (case Dsync_GetBlock ds0 (FormValue ?r2 ''block'') of
                  Inl err \<Rightarrow> respond 500 Map.empty (Error lib0 err)
                | Inr bs \<Rightarrow> respond 200 [''Content-Type'' \<mapsto> ''application/octet-stream''] bs))"
    using GET_dispatch [OF m2, of lib0 ds0] f2 by blast
  have g3: "HTTPRemoteHandler lib0 ds0 ?r3 =
              ([CallGetBlock (FormValue ?r3 ''block'')],
               (case Dsync_GetBlock ds0 (FormValue ?r3 ''block'') of
                  Inl err \<Rightarrow> respond 500 Map.empty (Error lib0 err)
                | Inr bs \<Rightarrow> respond 200 [''Content-Type'' \<mapsto> ''application/octet-stream''] bs))"
    using GET_dispatch [OF m3, of lib0 ds0] f3 by blast
  have q1: "query_meta ''manifest'' (Query (ReqURL ?r1)) = [''block'' \<mapsto> ''blk'']"
    by (auto simp: query_meta_def Values_Get_def fun_eq_iff)
  show ?thesis
    unfolding g0 g1 g2 g3 q1
    by (simp add: FormValue_def Request_Form_def Values_of_def ds0_def lib0_def)
qed

subsection \<open>Opening a session\<close>

text \<open>
  C5, as a counterexample. The pin flag is not always in the query: with a \<^verbatim>\<open>pin\<close> entry
  in the metadata, the request carries that entry's value and not the text of the flag.
\<close>

theorem pin_flag_replaced_counterexample:
  "NewReceiveSession_request lib0 remote0 ''{}'' True [''pin'' \<mapsto> ''no'']
     = Inr \<lparr>Method = ''POST'',
            ReqURL = \<lparr>Loc = ''http://remote/dsync'', Query = [''pin'' \<mapsto> [''no'']]\<rparr>,
            ReqHeader = [''Content-Type'' \<mapsto> ''application/json''],
            ReqBody = bytes_Buffer ''{}'',
            ReqPostForm = Map.empty, ReqMultipart = Map.empty\<rparr>
   \<and> Values_Get [''pin'' \<mapsto> [''no'']] ''pin'' \<noteq> Sprintf_t True"
  by (simp add: client_defs instance_defs fun_eq_iff)

text \<open>
  C5, amended. \<^verbatim>\<open>HTTPClient.NewReceiveSession\<close> sends a POST whose body is the JSON text of
  the DAG info and whose URL is the client's with the query \<open>q\<close>: every entry of the
  metadata is in \<open>q\<close>, and so is the pin flag (\<^verbatim>\<open>true\<close> or \<^verbatim>\<open>false\<close>) unless the metadata has
  an entry \<^verbatim>\<open>pin\<close> of its own. When the answer is 200 the call returns the session id of
  the header \<^verbatim>\<open>sid\<close> with the manifest decoded from the body (and the decoder's error, if
  any); on any other answer it returns an error whose text holds the status code and the
  body as far as it was read (no text when reading it fails).
\<close>

theorem NewReceiveSession_exchange:
  assumes "EncodeInfo d info = Inr buf"
    and "url_Parse d (URL rem) = Inr u"
    and "q = NewReceiveSession_query u pinOnComplete m"
    and "url_Parse d (url_String d (u\<lparr>Query := q\<rparr>)) = Inr pu"
    and "req = \<lparr>Method = ''POST'', ReqURL = pu,
                 ReqHeader = [''Content-Type'' \<mapsto> ''application/json''],
                 ReqBody = bytes_Buffer buf,
                 ReqPostForm = Map.empty, ReqMultipart = Map.empty\<rparr>"
    and "http_Do d req = Inr res"
  shows "NewReceiveSession_request d rem info pinOnComplete m = Inr req
       \<and> (\<forall>key val. m key = Some val \<longrightarrow> Values_Get q key = val)
       \<and> (m ''pin'' = None \<longrightarrow>
            Values_Get q ''pin'' = (if pinOnComplete then ''true'' else ''false''))
       \<and> (StatusCode res = 200 \<longrightarrow>
            HTTPClient_NewReceiveSession d rem info pinOnComplete m =
              (Header_Get (Header res) ''sid'', Some (fst (DecodeManifest d (Body res))),
               snd (DecodeManifest d (Body res))))
       \<and> (StatusCode res \<noteq> 200 \<longrightarrow>
            HTTPClient_NewReceiveSession d rem info pinOnComplete m =
              ([], None,
               Some (Errorf (''remote response: '' @ Sprintf_d (StatusCode res) @ '' ''
                             @ read_msg (Body res)))))"
proof -
  have r: "NewReceiveSession_request d rem info pinOnComplete m = Inr req"
    using assms(1-5)
    by (simp add: NewReceiveSession_request_def http_NewRequest_def Header_Set_def)
  have k: "\<forall>key val. m key = Some val \<longrightarrow> Values_Get q key = val"
    by (simp add: assms(3) NewReceiveSession_query_def query_has_meta)
  have p: "m ''pin'' = None \<longrightarrow>
             Values_Get q ''pin'' = (if pinOnComplete then ''true'' else ''false'')"
    using query_has_pin [of m u pinOnComplete] by (simp add: assms(3) Sprintf_t_def)
  show ?thesis
    using r k p by (simp add: NewReceiveSession_response [OF r assms(6)])
qed

text \<open>
  The theorem at a session that \<open>ds0\<close> opens and at a remote that answers 403.
\<close>

theorem NewReceiveSession_exchange_witness:
  "HTTPClient_NewReceiveSession (loopback lib0 ds0) remote0 ''{}'' True [''token'' \<mapsto> ''t'']
     = (''session-1'', Some ''{}'', None)
   \<and> HTTPClient_NewReceiveSession
        (answer lib0 \<lparr>StatusCode = 403, Header = Map.empty, Body = bytes_Buffer ''quota''\<rparr>)
        remote0 ''{}'' True [''token'' \<mapsto> ''t'']
     = ([], None, Some (Errorf ''remote response: 403 quota''))"
proof -
  let ?u = "\<lparr>Loc = ''http://remote/dsync'', Query = Map.empty\<rparr>"
  let ?q = "NewReceiveSession_query ?u True [''token'' \<mapsto> ''t'']"
  let ?pu = "\<lparr>Loc = ''http://remote/dsync'', Query = ?q\<rparr>"
  let ?req = "\<lparr>Method = ''POST'', ReqURL = ?pu,
               ReqHeader = [''Content-Type'' \<mapsto> ''application/json''],
               ReqBody = bytes_Buffer ''{}'',
               ReqPostForm = Map.empty, ReqMultipart = Map.empty\<rparr>"
  let ?ok = "\<lparr>StatusCode = 200,
              Header = [''sid'' \<mapsto> ''session-1'', ''Content-Type'' \<mapsto> ''application/json''],
              Body = bytes_Buffer ''{}''\<rparr>"
  let ?no = "\<lparr>StatusCode = 403, Header = Map.empty, Body = bytes_Buffer ''quota''\<rparr>"
  have e: "EncodeInfo (loopback lib0 ds0) ''{}'' = Inr ''{}''"
    and e': "EncodeInfo (answer lib0 ?no) ''{}'' = Inr ''{}''"
    by (simp_all add: lib0_def answer_def)
  have u: "url_Parse (loopback lib0 ds0) (URL remote0) = Inr ?u"
    and u': "url_Parse (answer lib0 ?no) (URL remote0) = Inr ?u"
    by (simp_all add: instance_defs)
  have pu: "url_Parse (loopback lib0 ds0) (url_String (loopback lib0 ds0) (?u\<lparr>Query := ?q\<rparr>))
              = Inr ?pu"
    and pu': "url_Parse (answer lib0 ?no) (url_String (answer lib0 ?no) (?u\<lparr>Query := ?q\<rparr>))
              = Inr ?pu"
    by (simp_all add: instance_defs client_defs fun_eq_iff)
  have d: "http_Do (loopback lib0 ds0) ?req = Inr ?ok"
    by (simp add: loopback_def http_ReadRequest0_def handler_defs client_defs lib0_def ds0_def)
  have d': "http_Do (answer lib0 ?no) ?req = Inr ?no"
    by (simp add: answer_def)
  have s: "StatusCode ?ok = 200" and s': "StatusCode ?no \<noteq> 200"
    by simp_all
  have "HTTPClient_NewReceiveSession (loopback lib0 ds0) remote0 ''{}'' True [''token'' \<mapsto> ''t'']
          = (Header_Get (Header ?ok) ''sid'',
             Some (fst (DecodeManifest (loopback lib0 ds0) (Body ?ok))),
             snd (DecodeManifest (loopback lib0 ds0) (Body ?ok)))"
    using NewReceiveSession_exchange [OF e u refl pu refl d] s by blast
  moreover have "HTTPClient_NewReceiveSession (answer lib0 ?no) remote0 ''{}'' True
                   [''token'' \<mapsto> ''t'']
          = ([], None, Some (Errorf (''remote response: '' @ Sprintf_d (StatusCode ?no) @ '' ''
                                     @ read_msg (Body ?no))))"
    using NewReceiveSession_exchange [OF e' u' refl pu' refl d'] s' by blast
  ultimately show ?thesis
    by (simp add: Header_Get_def lib0_def bytes_Buffer_def read_msg_def ioutil_ReadAll_def
        Sprintf_d_def decimal.simps digit_char_def)
qed

text \<open>
  C6, as a counterexample. The metadata the handler passes on is not always the
  caller's: the query parameters of the client's own URL travel with every request and
  the handler reads them as metadata too.
\<close>

theorem URL_query_joins_meta_counterexample:
  "NewReceiveSession_request lib0 \<lparr>URL = ''http://remote/dsync?token=t''\<rparr> ''{}'' False Map.empty
     = Inr \<lparr>Method = ''POST'',
            ReqURL = \<lparr>Loc = ''http://remote/dsync'',
                      Query = [''token'' \<mapsto> [''t''], ''pin'' \<mapsto> [''false'']]\<rparr>,
            ReqHeader = [''Content-Type'' \<mapsto> ''application/json''],
            ReqBody = bytes_Buffer ''{}'',
            ReqPostForm = Map.empty, ReqMultipart = Map.empty\<rparr>
   \<and> fst (HTTPRemoteHandler lib0 ds0
          \<lparr>Method = ''POST'',
           ReqURL = \<lparr>Loc = ''http://remote/dsync'',
                     Query = [''token'' \<mapsto> [''t''], ''pin'' \<mapsto> [''false'']]\<rparr>,
           ReqHeader = [''Content-Type'' \<mapsto> ''application/json''],
           ReqBody = bytes_Buffer ''{}'',
           ReqPostForm = Map.empty, ReqMultipart = Map.empty\<rparr>)
     = [CallNewReceiveSession ''{}'' False [''token'' \<mapsto> ''t'']]
   \<and> [''token'' \<mapsto> ''t''] \<noteq> (Map.empty :: meta)"
proof -
  have "[''token'' \<mapsto> ''t''] ''token'' \<noteq> (Map.empty :: meta) ''token''" by simp
  then have ne: "[''token'' \<mapsto> ''t''] \<noteq> (Map.empty :: meta)" by metis
  show ?thesis
    using ne by (simp add: client_defs handler_defs instance_defs fun_eq_iff)
qed

text \<open>
  C6, amended. For every metadata map without the key \<^verbatim>\<open>pin\<close>, and a client URL whose
  own query has no key other than \<^verbatim>\<open>pin\<close> and keys of the metadata: when the request is
  built, its URL is read back as it was written and the handler can decode its body,
  the handler makes the one call \<^verbatim>\<open>Dsync.NewReceiveSession\<close> with exactly the caller's
  metadata map and \<^verbatim>\<open>pinOnComplete\<close> flag.
\<close>

theorem NewReceiveSession_meta_roundtrip:
  assumes "m ''pin'' = None"
    and "EncodeInfo d info = Inr buf"
    and "url_Parse d (URL rem) = Inr u"
    and "dom (Query u) \<subseteq> insert ''pin'' (dom m)"
    and "url_Parse d (url_String d (u\<lparr>Query := NewReceiveSession_query u pinOnComplete m\<rparr>))
           = Inr (u\<lparr>Query := NewReceiveSession_query u pinOnComplete m\<rparr>)"
    and "DecodeInfo d (bytes_Buffer buf) = (info', None)"
  shows "\<exists>req. NewReceiveSession_request d rem info pinOnComplete m = Inr req
              \<and> fst (HTTPRemoteHandler d ds req) = [CallNewReceiveSession info' pinOnComplete m]"
proof -
  let ?req = "\<lparr>Method = ''POST'',
               ReqURL = u\<lparr>Query := NewReceiveSession_query u pinOnComplete m\<rparr>,
               ReqHeader = [''Content-Type'' \<mapsto> ''application/json''],
               ReqBody = bytes_Buffer buf,
               ReqPostForm = Map.empty, ReqMultipart = Map.empty\<rparr>"
  have r: "NewReceiveSession_request d rem info pinOnComplete m = Inr ?req"
    using assms(2,3,5)
    by (simp add: NewReceiveSession_request_def http_NewRequest_def Header_Set_def)
  have "fst (handle_POST d ds ?req) = [CallNewReceiveSession info' pinOnComplete m]"
    using assms(6) query_meta_roundtrip [OF assms(1) assms(4), of pinOnComplete]
      pin_flag_roundtrip [where m = m and u = u and pinOnComplete = pinOnComplete, OF assms(1)]
    by (simp add: handle_POST_def FormValue_no_body_fields Let_def split: sum.splits prod.splits)
  then have "fst (HTTPRemoteHandler d ds ?req) = [CallNewReceiveSession info' pinOnComplete m]"
    by (simp add: HTTPRemoteHandler_def)
  with r show ?thesis by blast
qed

text \<open>The theorem at a client without a query of its own, one entry of metadata.\<close>

theorem NewReceiveSession_meta_roundtrip_witness:
  "fst (HTTPRemoteHandler lib0 ds0
          \<lparr>Method = ''POST'',
           ReqURL = \<lparr>Loc = ''http://remote/dsync'',
                     Query = [''pin'' \<mapsto> [''true''], ''token'' \<mapsto> [''t'']]\<rparr>,
           ReqHeader = [''Content-Type'' \<mapsto> ''application/json''],
           ReqBody = bytes_Buffer ''{}'',
           ReqPostForm = Map.empty, ReqMultipart = Map.empty\<rparr>)
     = [CallNewReceiveSession ''{}'' True [''token'' \<mapsto> ''t'']]"
proof -
  let ?u = "\<lparr>Loc = ''http://remote/dsync'', Query = Map.empty\<rparr>"
  let ?m = "[''token'' \<mapsto> ''t'']"
  let ?req = "\<lparr>Method = ''POST'',
           ReqURL = \<lparr>Loc = ''http://remote/dsync'',
                     Query = [''pin'' \<mapsto> [''true''], ''token'' \<mapsto> [''t'']]\<rparr>,
           ReqHeader = [''Content-Type'' \<mapsto> ''application/json''],
           ReqBody = bytes_Buffer ''{}'',
           ReqPostForm = Map.empty, ReqMultipart = Map.empty\<rparr>"
  have a: "?m ''pin'' = None" by simp
  have b: "EncodeInfo lib0 ''{}'' = Inr ''{}''" by (simp add: lib0_def)
  have c: "url_Parse lib0 (URL remote0) = Inr ?u" by (simp add: instance_defs)
  have e: "dom (Query ?u) \<subseteq> insert ''pin'' (dom ?m)" by simp
  have f: "url_Parse lib0 (url_String lib0 (?u\<lparr>Query := NewReceiveSession_query ?u True ?m\<rparr>))
             = Inr (?u\<lparr>Query := NewReceiveSession_query ?u True ?m\<rparr>)"
    by (simp add: instance_defs client_defs fun_eq_iff)
  have g: "DecodeInfo lib0 (bytes_Buffer ''{}'') = (''{}'', None)"
    by (simp add: lib0_def bytes_Buffer_def)
  have h: "NewReceiveSession_request lib0 remote0 ''{}'' True ?m = Inr ?req"
    by (simp add: instance_defs client_defs fun_eq_iff)
  from NewReceiveSession_meta_roundtrip
    [where m = ?m and d = lib0 and info = "''{}''" and buf = "''{}''" and rem = remote0
       and u = ?u and pinOnComplete = True and info' = "''{}''" and ds = ds0, OF a b c e f g]
  obtain req where "NewReceiveSession_request lib0 remote0 ''{}'' True ?m = Inr req"
    and "fst (HTTPRemoteHandler lib0 ds0 req) = [CallNewReceiveSession ''{}'' True ?m]"
    by blast
  with h show ?thesis by simp
qed


text \<open>
  What follows at the remote, when the server reads the request as sent and the handler
  can decode the body: the flag the Dsync gets is whether the metadata's value is the
  text \<^verbatim>\<open>true\<close>, whatever \<^verbatim>\<open>pinOnComplete\<close> was.
\<close>

lemma meta_pin_decides_remote_flag:
  assumes "FormValue req ''pin'' = val"
    and "Method req = ''POST''"
    and "DecodeInfo d (ReqBody req) = (info', None)"
  shows "fst (HTTPRemoteHandler d ds req)
           = [CallNewReceiveSession info' (val = ''true'') (query_meta ''pin'' (Query (ReqURL req)))]"
  using assms
  by (simp add: HTTPRemoteHandler_def handle_POST_def Let_def split: sum.splits prod.splits)


end
